theory Spec2Isabelle
  imports Main
begin

section \<open>The request context\<close>

text \<open>
  The handlers of \<^verbatim>\<open>rest/table\<close> and the middleware of \<^verbatim>\<open>middleware/auth\<close> work on a
  \<^verbatim>\<open>*fiber.Ctx\<close>. The model keeps the parts of it that the code touches: the request
  line, the headers, the route parameters, the raw body, the request-scoped
  \<^verbatim>\<open>Locals\<close> and the response. Every response of the code is written by
  \<^verbatim>\<open>c.Status(code).JSON(value)\<close>; both calls overwrite what an earlier call has set, so
  the context records the calls in order and the response that is sent is the last one.
  The error that \<^verbatim>\<open>JSON\<close> returns when a value cannot be encoded is left out: the
  values written are maps of strings, table records and the validator's value.
\<close>

datatype Method = GET | POST | PUT | DELETE

text \<open>The values the code stores under \<^verbatim>\<open>Locals\<close>, by dynamic type: the token's claims,
  a \<^verbatim>\<open>*responses.TableDetail\<close> (a pointer, \<open>None\<close> is nil), anything else.\<close>

datatype ('t, 'c) local = UserClaims 'c | TableDetailPtr "'t option" | OtherLocal string

text \<open>The values handed to \<^verbatim>\<open>c.JSON\<close>: text sent by
  \<^verbatim>\<open>SendString\<close>, a \<^verbatim>\<open>fiber.Map\<close> with string values, a table
  pointer (nil is encoded as \<^verbatim>\<open>null\<close>), a list of tables, and the value returned by
  \<^verbatim>\<open>utils.ValidateStruct\<close>.\<close>

datatype ('t, 'v) body =
    NoBody
  | PlainText string
  | FiberMap "(string \<times> string) list"
  | TableJSON "'t option"
  | TablesJSON "'t list"
  | ValidationJSON 'v

record ('t, 'v, 'c) Ctx =
  httpMethod :: Method
  path :: "string list"
  headers :: "string \<rightharpoonup> string"
  params :: "string \<rightharpoonup> string"
  raw_body :: string
  locals :: "string \<rightharpoonup> ('t, 'c) local"
  writes :: "(nat \<times> ('t, 'v) body) list"

definition Get :: "('t, 'v, 'c) Ctx \<Rightarrow> string \<Rightarrow> string" where
  "Get c k = (case headers c k of None \<Rightarrow> [] | Some v \<Rightarrow> v)"

definition Params :: "('t, 'v, 'c) Ctx \<Rightarrow> string \<Rightarrow> string" where
  "Params c k = (case params c k of None \<Rightarrow> [] | Some v \<Rightarrow> v)"

definition Locals :: "('t, 'v, 'c) Ctx \<Rightarrow> string \<Rightarrow> ('t, 'c) local option" where
  "Locals c k = locals c k"

definition SetLocals ::
  "string \<Rightarrow> ('t, 'c) local \<Rightarrow> ('t, 'v, 'c) Ctx \<Rightarrow> ('t, 'v, 'c) Ctx" where
  "SetLocals k v c = c\<lparr>locals := (locals c)(k \<mapsto> v)\<rparr>"

text \<open>\<^verbatim>\<open>c.Status(code).JSON(b)\<close>.\<close>

definition JSON :: "nat \<Rightarrow> ('t, 'v) body \<Rightarrow> ('t, 'v, 'c) Ctx \<Rightarrow> ('t, 'v, 'c) Ctx" where
  "JSON code b c = c\<lparr>writes := writes c @ [(code, b)]\<rparr>"

text \<open>The response that is sent: the last status and body written, and fiber's default
  (200, empty) when the handlers wrote nothing.\<close>

definition response :: "('t, 'v, 'c) Ctx \<Rightarrow> nat \<times> ('t, 'v) body" where
  "response c = (case writes c of [] \<Rightarrow> (200, NoBody) | _ \<Rightarrow> last (writes c))"

definition StatusOK :: nat where "StatusOK = 200"
definition StatusBadRequest :: nat where "StatusBadRequest = 400"
definition StatusUnauthorized :: nat where "StatusUnauthorized = 401"
definition StatusForbidden :: nat where "StatusForbidden = 403"
definition StatusNotFound :: nat where "StatusNotFound = 404"
definition StatusInternalServerError :: nat where "StatusInternalServerError = 500"

text \<open>A handler runs on the context and on the state behind the service (the store);
  a middleware is a handler that is given the rest of the chain (\<^verbatim>\<open>c.Next()\<close>).\<close>

type_synonym ('x, 's) handler = "'x \<Rightarrow> 's \<Rightarrow> 'x \<times> 's"
type_synonym ('x, 's) middleware = "('x, 's) handler \<Rightarrow> ('x, 's) handler"

section \<open>middleware.AuthMiddleware\<close>

record Config =
  JWTSecret :: string

definition HasPrefix :: "string \<Rightarrow> string \<Rightarrow> bool" where
  "HasPrefix s p = (take (length p) s = p)"

definition TrimPrefix :: "string \<Rightarrow> string \<Rightarrow> string" where
  "TrimPrefix s p = (if HasPrefix s p then drop (length p) s else s)"

text \<open>
  \<^verbatim>\<open>jwt.Parse(tokenStr, keyFunc)\<close> belongs to the library \<^verbatim>\<open>golang-jwt\<close>; it is a
  parameter of the model, called with the token string and the key that the key function
  returns. It yields an error (bad signature, malformed token, expiry, ...) or a token
  with its \<^verbatim>\<open>Valid\<close> flag and its claims.
\<close>

record 'c Token =
  Valid :: bool
  Claims :: 'c

datatype 'c jwt_result = JwtError string | JwtToken "'c Token"

definition Unauthorized :: "('t, 'v, 'c) Ctx \<Rightarrow> ('t, 'v, 'c) Ctx" where
  "Unauthorized c = JSON StatusUnauthorized (FiberMap [(''message'', ''Unauthorized'')]) c"

definition AuthMiddleware ::
  "(string \<Rightarrow> string \<Rightarrow> 'c jwt_result) \<Rightarrow> Config \<Rightarrow> (('t, 'v, 'c) Ctx, 's) middleware" where
  "AuthMiddleware jwt_Parse cfg next c s =
     (let authHeader = Get c ''Authorization'' in
      if \<not> HasPrefix authHeader ''Bearer '' then (Unauthorized c, s)
      else
        let tokenStr = TrimPrefix authHeader ''Bearer '' in
        case jwt_Parse tokenStr (JWTSecret cfg) of
          JwtError e \<Rightarrow> (Unauthorized c, s)
        | JwtToken token \<Rightarrow>
            if \<not> Valid token then (Unauthorized c, s)
            else next (SetLocals ''user'' (UserClaims (Claims token)) c) s)"

section \<open>rest.tableHandler\<close>

text \<open>The sentinel errors of the package \<^verbatim>\<open>exceptions\<close> that the handlers compare
  with, and any other error with its text.\<close>

datatype err =
    ErrTableNotFound
  | ErrDuplicatedTableName
  | ErrTableAlreadyAssigned
  | OtherErr string

text \<open>The texts of the sentinels are declared in \<^verbatim>\<open>exceptions\<close>; they are a parameter.\<close>

record exceptions =
  textTableNotFound :: string
  textDuplicatedTableName :: string
  textTableAlreadyAssigned :: string

fun Error :: "exceptions \<Rightarrow> err \<Rightarrow> string" where
  "Error X ErrTableNotFound = textTableNotFound X"
| "Error X ErrDuplicatedTableName = textDuplicatedTableName X"
| "Error X ErrTableAlreadyAssigned = textTableAlreadyAssigned X"
| "Error X (OtherErr m) = m"

text \<open>
  \<^verbatim>\<open>usecases.TableUseCase\<close>: the service behind the handlers, an interface. Each
  operation runs on the store \<open>'s\<close>. A request reaches it as a pointer (\<open>None\<close> is nil).
\<close>

record ('a, 'e, 'g, 'i, 't, 's) TableUseCase =
  svcAddTable :: "'a option \<Rightarrow> 's \<Rightarrow> err option \<times> 's"
  svcFindAllTables :: "'s \<Rightarrow> (err + 't list) \<times> 's"
  svcFindTableByID :: "'i \<Rightarrow> 's \<Rightarrow> (err + 't option) \<times> 's"
  svcEditTable :: "'e option \<Rightarrow> 's \<Rightarrow> err option \<times> 's"
  svcDeleteTable :: "'i \<Rightarrow> 's \<Rightarrow> err option \<times> 's"
  svcAssignTable :: "'g option \<Rightarrow> 's \<Rightarrow> (err + 't option) \<times> 's"

text \<open>
  The helpers the handlers call: \<^verbatim>\<open>c.BodyParser(&req)\<close> for each request type, from the
  content type and the raw body to the pointer \<^verbatim>\<open>req\<close> after the call and the error;
  \<^verbatim>\<open>utils.ValidateStruct\<close> at each request type; \<^verbatim>\<open>utils.ValidateUUID\<close>.
\<close>

record ('a, 'e, 'g, 'i, 'v) Utils =
  parseAdd :: "string \<Rightarrow> string \<Rightarrow> 'a option \<times> string option"
  parseEdit :: "string \<Rightarrow> string \<Rightarrow> 'e option \<times> string option"
  parseAssign :: "string \<Rightarrow> string \<Rightarrow> 'g option \<times> string option"
  validateAdd :: "'a option \<Rightarrow> 'v option"
  validateEdit :: "'e option \<Rightarrow> 'v option"
  validateAssign :: "'g option \<Rightarrow> 'v option"
  ValidateUUID :: "string \<Rightarrow> 'i option"

text \<open>The parse-error branch of the three handlers with a body: it writes the response
  and does not return.\<close>

definition parseErrorBranch ::
  "string option \<Rightarrow> ('t, 'v, 'c) Ctx \<Rightarrow> ('t, 'v, 'c) Ctx" where
  "parseErrorBranch perr c =
     (case perr of
        Some e \<Rightarrow> JSON StatusBadRequest (FiberMap [(''error'', e)]) c
      | None \<Rightarrow> c)"

definition AddTable ::
  "exceptions \<Rightarrow> ('a, 'e, 'g, 'i, 'v) Utils \<Rightarrow> ('a, 'e, 'g, 'i, 't, 's) TableUseCase
     \<Rightarrow> (('t, 'v, 'c) Ctx, 's) handler" where
  "AddTable X U S c s =
     (case parseAdd U (Get c ''Content-Type'') (raw_body c) of (req, perr) \<Rightarrow>
        let c1 = parseErrorBranch perr c in
        (case validateAdd U req of
          Some v \<Rightarrow> (JSON StatusBadRequest (ValidationJSON v) c1, s)
        | None \<Rightarrow>
            (case svcAddTable S req s of
               (Some e, s') \<Rightarrow>
                 (if e = ErrDuplicatedTableName
                  then JSON StatusBadRequest (FiberMap [(''error'', ''Table name already exists'')]) c1
                  else JSON StatusInternalServerError (FiberMap [(''error'', Error X e)]) c1, s')
             | (None, s') \<Rightarrow>
                 (JSON StatusOK (FiberMap [(''message'', ''Table added successfully'')]) c1, s'))))"

definition FindAllTables ::
  "exceptions \<Rightarrow> ('a, 'e, 'g, 'i, 't, 's) TableUseCase \<Rightarrow> (('t, 'v, 'c) Ctx, 's) handler" where
  "FindAllTables X S c s =
     (case svcFindAllTables S s of
        (Inl e, s') \<Rightarrow> (JSON StatusInternalServerError (FiberMap [(''error'', Error X e)]) c, s')
      | (Inr tables, s') \<Rightarrow> (JSON StatusOK (TablesJSON tables) c, s'))"

definition FindTableByID ::
  "exceptions \<Rightarrow> ('a, 'e, 'g, 'i, 'v) Utils \<Rightarrow> ('a, 'e, 'g, 'i, 't, 's) TableUseCase
     \<Rightarrow> (('t, 'v, 'c) Ctx, 's) handler" where
  "FindTableByID X U S c s =
     (case ValidateUUID U (Params c ''id'') of
        None \<Rightarrow> (JSON StatusBadRequest (FiberMap [(''error'', ''Invalid UUID'')]) c, s)
      | Some uid \<Rightarrow>
          (case svcFindTableByID S uid s of
             (Inl e, s') \<Rightarrow>
               (if e = ErrTableNotFound
                then JSON StatusNotFound (FiberMap [(''error'', ''Table not found'')]) c
                else JSON StatusInternalServerError (FiberMap [(''error'', Error X e)]) c, s')
           | (Inr table, s') \<Rightarrow> (JSON StatusOK (TableJSON table) c, s')))"

definition Edit ::
  "exceptions \<Rightarrow> ('a, 'e, 'g, 'i, 'v) Utils \<Rightarrow> ('a, 'e, 'g, 'i, 't, 's) TableUseCase
     \<Rightarrow> (('t, 'v, 'c) Ctx, 's) handler" where
  "Edit X U S c s =
     (case parseEdit U (Get c ''Content-Type'') (raw_body c) of (req, perr) \<Rightarrow>
        let c1 = parseErrorBranch perr c in
        (case validateEdit U req of
          Some v \<Rightarrow> (JSON StatusBadRequest (ValidationJSON v) c1, s)
        | None \<Rightarrow>
            (case svcEditTable S req s of
               (Some e, s') \<Rightarrow>
                 (if e = ErrTableNotFound
                  then JSON StatusBadRequest (FiberMap [(''error'', ''Table not found'')]) c1
                  else JSON StatusInternalServerError (FiberMap [(''error'', Error X e)]) c1, s')
             | (None, s') \<Rightarrow>
                 (JSON StatusOK (FiberMap [(''message'', ''Table edited successfully'')]) c1, s'))))"

definition Delete ::
  "exceptions \<Rightarrow> ('a, 'e, 'g, 'i, 'v) Utils \<Rightarrow> ('a, 'e, 'g, 'i, 't, 's) TableUseCase
     \<Rightarrow> (('t, 'v, 'c) Ctx, 's) handler" where
  "Delete X U S c s =
     (case ValidateUUID U (Params c ''id'') of
        None \<Rightarrow> (JSON StatusBadRequest (FiberMap [(''error'', ''Invalid UUID'')]) c, s)
      | Some uid \<Rightarrow>
          (case svcDeleteTable S uid s of
             (Some e, s') \<Rightarrow>
               (if e = ErrTableNotFound
                then JSON StatusBadRequest (FiberMap [(''error'', ''Table not found'')]) c
                else JSON StatusInternalServerError (FiberMap [(''error'', Error X e)]) c, s')
           | (None, s') \<Rightarrow>
               (JSON StatusOK (FiberMap [(''message'', ''Table deleted successfully'')]) c, s')))"

definition AssignTable ::
  "exceptions \<Rightarrow> ('a, 'e, 'g, 'i, 'v) Utils \<Rightarrow> ('a, 'e, 'g, 'i, 't, 's) TableUseCase
     \<Rightarrow> (('t, 'v, 'c) Ctx, 's) handler" where
  "AssignTable X U S c s =
     (case parseAssign U (Get c ''Content-Type'') (raw_body c) of (req, perr) \<Rightarrow>
        let c1 = parseErrorBranch perr c in
        (case validateAssign U req of
          Some v \<Rightarrow> (JSON StatusBadRequest (ValidationJSON v) c1, s)
        | None \<Rightarrow>
            (case svcAssignTable S req s of
               (Inl e, s') \<Rightarrow>
                 (if e = ErrTableNotFound
                  then JSON StatusBadRequest (FiberMap [(''error'', ''Table not found'')]) c1
                  else if e = ErrTableAlreadyAssigned
                  then JSON StatusBadRequest (FiberMap [(''error'', ''Table already assigned'')]) c1
                  else JSON StatusInternalServerError (FiberMap [(''error'', Error X e)]) c1, s')
             | (Inr table, s') \<Rightarrow> (JSON StatusOK (TableJSON table) c1, s'))))"

text \<open>\<^verbatim>\<open>claims, _ := c.Locals("table").(*responses.TableDetail)\<close>: the checked type
  assertion gives nil when the value is absent or of another type.\<close>

definition FindCustomerTable :: "(('t, 'v, 'c) Ctx, 's) handler" where
  "FindCustomerTable c s =
     (let claims = (case Locals c ''table'' of Some (TableDetailPtr p) \<Rightarrow> p | _ \<Rightarrow> None)
      in (JSON StatusOK (TableJSON claims) c, s))"

section \<open>main: the route stack\<close>

text \<open>Modelled from the spec: the package \<^verbatim>\<open>models\<close> with the role constants
  \<^verbatim>\<open>models.Employee\<close> and \<^verbatim>\<open>models.Manager\<close>, which \<^verbatim>\<open>main\<close> passes to the role
  middleware, is not among the sources. Spec, data model: the role is \<open>Employee\<close> or
  \<open>Manager\<close>, and the set is open to other values, carried here by their name.\<close>

datatype Role = Employee | Manager | OtherRole string

text \<open>The operations of the interface \<^verbatim>\<open>TableHandler\<close>.\<close>

datatype table_op =
    OpAddTable
  | OpFindAllTables
  | OpFindTableByID
  | OpFindCustomerTable
  | OpEdit
  | OpDelete
  | OpAssignTable

text \<open>The handlers that \<^verbatim>\<open>main\<close> registers, by name.\<close>

datatype hname =
    Cors
  | SwaggerDefault
  | RootHandler
  | UserRegister
  | UserLogin
  | Auth
  | RoleCheck "Role list"
  | TableH table_op
  | CategoryFindAll
  | CategoryFindByID
  | CategoryAdd
  | MenuFindAll
  | MenuFindByID
  | MenuCreate

text \<open>
  A route of fiber's stack: \<open>rmethod = None\<close> is a route registered with \<^verbatim>\<open>Use\<close> (every HTTP
  verb, and the path is a prefix), the path is a list of segments (\<^verbatim>\<open>:id\<close> a
  parameter, \<^verbatim>\<open>*\<close> the rest of the path), and the handlers run in order.
\<close>

record Route =
  rmethod :: "Method option"
  rpath :: "string list"
  rhandlers :: "hname list"

definition manageGroup :: "hname list" where
  "manageGroup = [Auth, RoleCheck [Employee, Manager]]"

text \<open>\<^verbatim>\<open>main\<close>, in the order of registration: the routes registered on the group
  \<^verbatim>\<open>manage\<close>, and the whole stack. \<^verbatim>\<open>app.Group("/auth")\<close> has no handlers
  and registers nothing; \<^verbatim>\<open>app.Group("/manage", ...)\<close> registers its handlers on the
  prefix, as \<^verbatim>\<open>Use\<close> does.\<close>

definition manageRoutes :: "Route list" where
  "manageRoutes =
    [\<lparr>rmethod = Some GET, rpath = [''manage'', ''tables''], rhandlers = [TableH OpFindAllTables]\<rparr>,
     \<lparr>rmethod = Some GET, rpath = [''manage'', ''tables'', '':id''],
        rhandlers = [TableH OpFindTableByID]\<rparr>,
     \<lparr>rmethod = Some POST, rpath = [''manage'', ''tables''], rhandlers = [TableH OpAddTable]\<rparr>,
     \<lparr>rmethod = Some PUT, rpath = [''manage'', ''tables''], rhandlers = [TableH OpEdit]\<rparr>,
     \<lparr>rmethod = Some DELETE, rpath = [''manage'', ''tables'', '':id''],
        rhandlers = [TableH OpDelete]\<rparr>,
     \<lparr>rmethod = Some GET, rpath = [''manage'', ''categories''], rhandlers = [CategoryFindAll]\<rparr>,
     \<lparr>rmethod = Some GET, rpath = [''manage'', ''categories'', '':id''],
        rhandlers = [CategoryFindByID]\<rparr>,
     \<lparr>rmethod = Some POST, rpath = [''manage'', ''categories''], rhandlers = [CategoryAdd]\<rparr>,
     \<lparr>rmethod = Some GET, rpath = [''manage'', ''menus''], rhandlers = [MenuFindAll]\<rparr>,
     \<lparr>rmethod = Some GET, rpath = [''manage'', ''menus'', '':id''], rhandlers = [MenuFindByID]\<rparr>,
     \<lparr>rmethod = Some POST, rpath = [''manage'', ''menus''], rhandlers = [MenuCreate]\<rparr>]"

definition stack :: "Route list" where
  "stack =
    [\<lparr>rmethod = None, rpath = [], rhandlers = [Cors]\<rparr>,
     \<lparr>rmethod = Some GET, rpath = [''swagger'', ''*''], rhandlers = [SwaggerDefault]\<rparr>,
     \<lparr>rmethod = Some GET, rpath = [], rhandlers = [RootHandler]\<rparr>,
     \<lparr>rmethod = Some POST, rpath = [''auth'', ''register''], rhandlers = [UserRegister]\<rparr>,
     \<lparr>rmethod = Some POST, rpath = [''auth'', ''login''], rhandlers = [UserLogin]\<rparr>,
     \<lparr>rmethod = None, rpath = [''manage''], rhandlers = manageGroup\<rparr>]
    @ manageRoutes"

text \<open>
  Matching a path against a route's pattern gives the route parameters. The path is the
  one fiber matches on (lower case, no trailing slash), split at the slashes. A route
  registered with \<^verbatim>\<open>Use\<close> matches every path that its own path is a prefix of, as a
  string: \<^verbatim>\<open>/manage\<close> also matches \<^verbatim>\<open>/managex\<close>.
\<close>

fun match_path :: "bool \<Rightarrow> string list \<Rightarrow> string list \<Rightarrow> (string \<times> string) list option" where
  "match_path use [] xs = (if use \<or> xs = [] then Some [] else None)"
| "match_path use (p # ps) [] = (if p = ''*'' then Some [] else None)"
| "match_path use (p # ps) (x # xs) =
     (if p = ''*'' then Some []
      else case p of
        CHR '':'' # n \<Rightarrow>
          (if x = [] then None else map_option ((#) (n, x)) (match_path use ps xs))
      | _ \<Rightarrow>
          (if p = x then match_path use ps xs
           else if use \<and> ps = [] \<and> HasPrefix x p then Some []
           else None))"

definition match_route :: "Route \<Rightarrow> Method \<Rightarrow> string list \<Rightarrow> (string \<times> string) list option" where
  "match_route r m p =
     (case rmethod r of
        None \<Rightarrow> match_path True (rpath r) p
      | Some m' \<Rightarrow> (if m' = m then match_path False (rpath r) p else None))"

text \<open>The routes that a request matches, in the order in which fiber runs them.\<close>

definition matching :: "Method \<Rightarrow> string list \<Rightarrow> Route list" where
  "matching m p = filter (\<lambda>r. match_route r m p \<noteq> None) stack"

fun method_name :: "Method \<Rightarrow> string" where
  "method_name GET = ''GET''"
| "method_name POST = ''POST''"
| "method_name PUT = ''PUT''"
| "method_name DELETE = ''DELETE''"

text \<open>
  fiber's answers when the stack has no (further) matching route, as its default error
  handler writes them: 404 with the request line, or 405 when no route other than a
  \<^verbatim>\<open>Use\<close> route has matched the request and a route of another verb matches the path
  (\<^verbatim>\<open>methodExist\<close>; the \<^verbatim>\<open>Allow\<close> header it sets is not part of the model). fiber
  registers every \<^verbatim>\<open>GET\<close> route for \<^verbatim>\<open>HEAD\<close> too, which adds nothing for the four
  verbs of \<open>Method\<close>.
\<close>

definition NotFoundDefault :: "(('t, 'v, 'c) Ctx, 's) handler" where
  "NotFoundDefault c s =
     (c\<lparr>writes := writes c @
          [(StatusNotFound,
            PlainText (''Cannot '' @ method_name (httpMethod c) @ '' '' @ concat (map ((@) ''/'') (path c))))]\<rparr>,
      s)"

definition StatusMethodNotAllowed :: nat where "StatusMethodNotAllowed = 405"

definition MethodNotAllowed :: "(('t, 'v, 'c) Ctx, 's) handler" where
  "MethodNotAllowed c s =
     (c\<lparr>writes := writes c @ [(StatusMethodNotAllowed, PlainText ''Method Not Allowed'')]\<rparr>, s)"

definition methodExist :: "('t, 'v, 'c) Ctx \<Rightarrow> bool" where
  "methodExist c =
     list_ex (\<lambda>r. case rmethod r of
                     None \<Rightarrow> False
                   | Some m \<Rightarrow> m \<noteq> httpMethod c \<and> match_path False (rpath r) (path c) \<noteq> None)
       stack"

text \<open>The handlers of one route run in order; each is given the rest of the chain.\<close>

fun run_handlers :: "('x, 's) middleware list \<Rightarrow> ('x, 's) handler \<Rightarrow> ('x, 's) handler" where
  "run_handlers [] k = k"
| "run_handlers (h # hs) k = h (run_handlers hs k)"

text \<open>
  fiber's \<^verbatim>\<open>next\<close>: \<^verbatim>\<open>c.Next()\<close> past the last handler of a route goes on with the next
  matching route of the stack. \<open>matched\<close> is fiber's \<^verbatim>\<open>c.matched\<close>: a route other than a
  \<^verbatim>\<open>Use\<close> route has matched the request. At the end of the stack the answer is 405 or
  404.
\<close>

fun run_routes ::
  "(hname \<Rightarrow> (('t, 'v, 'c) Ctx, 's) middleware) \<Rightarrow> bool \<Rightarrow> Route list
     \<Rightarrow> (('t, 'v, 'c) Ctx, 's) handler" where
  "run_routes sem matched [] c s =
     (if \<not> matched \<and> methodExist c then MethodNotAllowed c s else NotFoundDefault c s)"
| "run_routes sem matched (r # rs) c s =
     (case match_route r (httpMethod c) (path c) of
        None \<Rightarrow> run_routes sem matched rs c s
      | Some ps \<Rightarrow>
          run_handlers (map sem (rhandlers r))
            (run_routes sem (if rmethod r = None then matched else True) rs)
            (c\<lparr>params := map_of ps\<rparr>) s)"

text \<open>Running routes of the stack for a request that no route other than a \<^verbatim>\<open>Use\<close>
  route has matched so far.\<close>

definition run_stack ::
  "(hname \<Rightarrow> (('t, 'v, 'c) Ctx, 's) middleware) \<Rightarrow> Route list \<Rightarrow> (('t, 'v, 'c) Ctx, 's) handler" where
  "run_stack sem rs = run_routes sem False rs"

text \<open>The handler at \<^verbatim>\<open>/\<close>, a closure in \<^verbatim>\<open>main\<close>; the text ends with U+1F389 in UTF-8.\<close>

definition Root :: "(('t, 'v, 'c) Ctx, 's) handler" where
  "Root c s =
     (c\<lparr>writes := writes c @
          [(StatusOK,
            PlainText (''BuffetPOS is running '' @ [CHR 0xF0, CHR 0x9F, CHR 0x8E, CHR 0x89]))]\<rparr>,
      s)"

definition tableHandler ::
  "exceptions \<Rightarrow> ('a, 'e, 'g, 'i, 'v) Utils \<Rightarrow> ('a, 'e, 'g, 'i, 't, 's) TableUseCase
     \<Rightarrow> table_op \<Rightarrow> (('t, 'v, 'c) Ctx, 's) handler" where
  "tableHandler X U S op =
     (case op of
        OpAddTable \<Rightarrow> AddTable X U S
      | OpFindAllTables \<Rightarrow> FindAllTables X S
      | OpFindTableByID \<Rightarrow> FindTableByID X U S
      | OpFindCustomerTable \<Rightarrow> FindCustomerTable
      | OpEdit \<Rightarrow> Edit X U S
      | OpDelete \<Rightarrow> Delete X U S
      | OpAssignTable \<Rightarrow> AssignTable X U S)"

text \<open>
  What each registered name runs. \<^verbatim>\<open>cors.New()\<close> is fiber's middleware: on a request
  that is not a preflight (the methods of \<open>Method\<close> are not) it sets response headers,
  which the model does not hold, and calls \<^verbatim>\<open>c.Next()\<close>. The role middleware and the
  handlers of the other packages are parameters.
\<close>

definition sem ::
  "(string \<Rightarrow> string \<Rightarrow> 'c jwt_result) \<Rightarrow> Config
     \<Rightarrow> (Role list \<Rightarrow> (('t, 'v, 'c) Ctx, 's) middleware)
     \<Rightarrow> (hname \<Rightarrow> (('t, 'v, 'c) Ctx, 's) handler)
     \<Rightarrow> exceptions \<Rightarrow> ('a, 'e, 'g, 'i, 'v) Utils \<Rightarrow> ('a, 'e, 'g, 'i, 't, 's) TableUseCase
     \<Rightarrow> hname \<Rightarrow> (('t, 'v, 'c) Ctx, 's) middleware" where
  "sem jwt_Parse cfg roleMiddleware other X U S h =
     (case h of
        Cors \<Rightarrow> (\<lambda>next. next)
      | Auth \<Rightarrow> AuthMiddleware jwt_Parse cfg
      | RoleCheck roles \<Rightarrow> roleMiddleware roles
      | TableH op \<Rightarrow> (\<lambda>next. tableHandler X U S op)
      | RootHandler \<Rightarrow> (\<lambda>next. Root)
      | _ \<Rightarrow> (\<lambda>next. other h))"

definition app ::
  "(string \<Rightarrow> string \<Rightarrow> 'c jwt_result) \<Rightarrow> Config
     \<Rightarrow> (Role list \<Rightarrow> (('t, 'v, 'c) Ctx, 's) middleware)
     \<Rightarrow> (hname \<Rightarrow> (('t, 'v, 'c) Ctx, 's) handler)
     \<Rightarrow> exceptions \<Rightarrow> ('a, 'e, 'g, 'i, 'v) Utils \<Rightarrow> ('a, 'e, 'g, 'i, 't, 's) TableUseCase
     \<Rightarrow> (('t, 'v, 'c) Ctx, 's) handler" where
  "app jwt_Parse cfg roleMiddleware other X U S =
     run_stack (sem jwt_Parse cfg roleMiddleware other X U S) stack"

section \<open>Authentication failure and response envelopes\<close>

text \<open>A request fails authentication when the \<^verbatim>\<open>Authorization\<close> header is missing,
  does not start with \<^verbatim>\<open>Bearer \<close>, or carries a token that the parser rejects or
  reports as not valid.\<close>

definition authFails ::
  "(string \<Rightarrow> string \<Rightarrow> 'c jwt_result) \<Rightarrow> Config \<Rightarrow> ('t, 'v, 'c) Ctx \<Rightarrow> bool" where
  "authFails jwt_Parse cfg c =
     (headers c ''Authorization'' = None
      \<or> \<not> HasPrefix (Get c ''Authorization'') ''Bearer ''
      \<or> (case jwt_Parse (TrimPrefix (Get c ''Authorization'') ''Bearer '') (JWTSecret cfg) of
            JwtError e \<Rightarrow> True
          | JwtToken token \<Rightarrow> \<not> Valid token))"

text \<open>The shapes of a response body that the envelope convention speaks of.\<close>

datatype envelope = MessageEnvelope | ErrorEnvelope | Resource | ValidatorValue | OtherBody

fun envelope_of :: "('t, 'v) body \<Rightarrow> envelope" where
  "envelope_of (FiberMap [(k, v)]) =
     (if k = ''message'' then MessageEnvelope
      else if k = ''error'' then ErrorEnvelope else OtherBody)"
| "envelope_of (TableJSON t) = Resource"
| "envelope_of (TablesJSON ts) = Resource"
| "envelope_of (ValidationJSON v) = ValidatorValue"
| "envelope_of b = OtherBody"

text \<open>Status and body shape of the response that is sent.\<close>

definition shape :: "('t, 'v, 'c) Ctx \<Rightarrow> nat \<times> envelope" where
  "shape c = (fst (response c), envelope_of (snd (response c)))"

section \<open>The role middleware\<close>

text \<open>Modelled from the spec: the claims that a staff token carries are not declared
  in the sources. Spec, data model, Staff Identity: user, role (possibly absent or
  unrecognized), expiry.\<close>

record Identity =
  userID :: string
  role :: "Role option"
  expiry :: nat

text \<open>Modelled from the spec: the answer of the role middleware, not among the sources.
  Spec: \<open>Forbidden\<close> is a 403-class rejection, and a failure body is
  \<^verbatim>\<open>{"error": text}\<close>.\<close>

definition Forbidden :: "('t, 'v, 'c) Ctx \<Rightarrow> ('t, 'v, 'c) Ctx" where
  "Forbidden c = JSON StatusForbidden (FiberMap [(''error'', ''Forbidden'')]) c"

text \<open>
  Modelled from the spec: \<^verbatim>\<open>middleware.RoleMiddleware\<close> is called in \<^verbatim>\<open>main\<close> and is
  not among the sources. Spec, Authorization Gate: for staff routes the identity must be
  present and its role must be one of the required roles; otherwise \<open>Forbidden\<close>. The
  identity is the one the authentication stored for the request.
\<close>

definition RoleMiddleware :: "Role list \<Rightarrow> (('t, 'v, Identity) Ctx, 's) middleware" where
  "RoleMiddleware requiredRoles next c s =
     (case Locals c ''user'' of
        Some (UserClaims identity) \<Rightarrow>
          (case role identity of
             Some r \<Rightarrow> if r \<in> set requiredRoles then next c s else (Forbidden c, s)
           | None \<Rightarrow> (Forbidden c, s))
      | _ \<Rightarrow> (Forbidden c, s))"

section \<open>The table service\<close>

text \<open>Modelled from the spec: the table record and the requests of the service are
  declared in packages that are not among the sources. Spec, data model: a table has an
  id, a name, a capacity, a status (\<open>Free\<close> or \<open>Occupied\<close>) and an access code; a
  creation proposes name and capacity, an edit names the table by its id.\<close>

datatype TableStatus = Free | Occupied

record Table =
  tableId :: nat
  name :: string
  capacity :: nat
  status :: TableStatus
  accessCode :: string

record AddTableRequest =
  addName :: string
  addCapacity :: nat

record EditTableRequest =
  editId :: nat
  editName :: string
  editCapacity :: nat

definition findTable :: "nat \<Rightarrow> Table list \<Rightarrow> Table option" where
  "findTable i ts = find (\<lambda>t. tableId t = i) ts"

definition freshId :: "Table list \<Rightarrow> nat" where
  "freshId ts = Suc (fold max (map tableId ts) 0)"

text \<open>
  Modelled from the spec: the service \<^verbatim>\<open>usecases.TableService\<close> behind \<^verbatim>\<open>AddTable\<close> is not
  among the sources. Spec, Table State Machine: creation fails with \<open>DuplicateName\<close> if
  a live table shares the proposed name (case-sensitive exact match); a new table is
  \<open>Free\<close> and has no access code. The store is the list of live tables. The spec does
  not say what a nil request does; the model reports an internal error.
\<close>

definition specAddTable :: "AddTableRequest option \<Rightarrow> Table list \<Rightarrow> err option \<times> Table list" where
  "specAddTable req ts =
     (case req of
        None \<Rightarrow> (Some (OtherErr ''invalid request''), ts)
      | Some r \<Rightarrow>
          if addName r \<in> set (map name ts) then (Some ErrDuplicatedTableName, ts)
          else (None,
                ts @ [\<lparr>tableId = freshId ts, name = addName r, capacity = addCapacity r,
                        status = Free, accessCode = []\<rparr>]))"

text \<open>
  Modelled from the spec: the service behind \<^verbatim>\<open>EditTable\<close> is not among the sources.
  Spec: \<open>NotFound\<close> when the target id does not exist; \<open>DuplicateName\<close> if another live
  table shares the proposed name; otherwise name and capacity are replaced.
\<close>

definition specEditTable :: "EditTableRequest option \<Rightarrow> Table list \<Rightarrow> err option \<times> Table list" where
  "specEditTable req ts =
     (case req of
        None \<Rightarrow> (Some (OtherErr ''invalid request''), ts)
      | Some r \<Rightarrow>
          if findTable (editId r) ts = None then (Some ErrTableNotFound, ts)
          else if editName r \<in> set (map name (filter (\<lambda>t. tableId t \<noteq> editId r) ts))
          then (Some ErrDuplicatedTableName, ts)
          else (None,
                map (\<lambda>t. if tableId t = editId r
                          then t\<lparr>name := editName r, capacity := editCapacity r\<rparr> else t) ts))"

text \<open>
  Modelled from the spec: the remaining operations of the service, not among the
  sources. Spec, Assignment Coordinator: \<open>assign\<close> looks the table up (\<open>NotFound\<close>),
  fails with \<open>AlreadyAssigned\<close> on an occupied table without changing it, and otherwise
  stores a new access code (\<open>mint\<close>, a parameter) and returns the updated snapshot;
  find, list and delete are direct operations on the record.
\<close>

definition specAssignTable ::
  "(Table list \<Rightarrow> nat \<Rightarrow> string) \<Rightarrow> nat option \<Rightarrow> Table list
     \<Rightarrow> (err + Table option) \<times> Table list" where
  "specAssignTable mint req ts =
     (case req of
        None \<Rightarrow> (Inl (OtherErr ''invalid request''), ts)
      | Some i \<Rightarrow>
          (case findTable i ts of
             None \<Rightarrow> (Inl ErrTableNotFound, ts)
           | Some t \<Rightarrow>
               if status t = Occupied then (Inl ErrTableAlreadyAssigned, ts)
               else
                 let t' = t\<lparr>status := Occupied, accessCode := mint ts i\<rparr>
                 in (Inr (Some t'), map (\<lambda>u. if tableId u = i then t' else u) ts)))"

text \<open>Modelled from the spec: the service as a whole, not among the sources, from the
  operations above.\<close>

definition specTableService ::
  "(Table list \<Rightarrow> nat \<Rightarrow> string)
     \<Rightarrow> (AddTableRequest, EditTableRequest, nat, nat, Table, Table list) TableUseCase" where
  "specTableService mint =
     \<lparr>svcAddTable = specAddTable,
      svcFindAllTables = (\<lambda>ts. (Inr ts, ts)),
      svcFindTableByID =
        (\<lambda>i ts. (case findTable i ts of None \<Rightarrow> Inl ErrTableNotFound | Some t \<Rightarrow> Inr (Some t), ts)),
      svcEditTable = specEditTable,
      svcDeleteTable =
        (\<lambda>i ts. case findTable i ts of
                   None \<Rightarrow> (Some ErrTableNotFound, ts)
                 | Some t \<Rightarrow> (None, filter (\<lambda>u. tableId u \<noteq> i) ts)),
      svcAssignTable = specAssignTable mint\<rparr>"

section \<open>Example inputs\<close>

text \<open>Concrete collaborators and requests, on which the theorems below are evaluated.\<close>

definition exampleCfg :: Config where
  "exampleCfg = \<lparr>JWTSecret = ''secret''\<rparr>"

definition exampleExceptions :: exceptions where
  "exampleExceptions =
     \<lparr>textTableNotFound = ''table not found'',
      textDuplicatedTableName = ''duplicated table name'',
      textTableAlreadyAssigned = ''table already assigned''\<rparr>"

text \<open>A token parser for the examples: a token is the key, a dot and a role name.\<close>

definition exampleJwt :: "string \<Rightarrow> string \<Rightarrow> Identity jwt_result" where
  "exampleJwt tokenStr key =
     (if tokenStr = key @ ''.employee''
      then JwtToken \<lparr>Valid = True, Claims = \<lparr>userID = ''u1'', role = Some Employee, expiry = 0\<rparr>\<rparr>
      else if tokenStr = key @ ''.manager''
      then JwtToken \<lparr>Valid = True, Claims = \<lparr>userID = ''u2'', role = Some Manager, expiry = 0\<rparr>\<rparr>
      else if tokenStr = key @ ''.guest''
      then JwtToken \<lparr>Valid = True,
                      Claims = \<lparr>userID = ''u3'', role = Some (OtherRole ''Guest''), expiry = 0\<rparr>\<rparr>
      else if tokenStr = key @ ''.norole''
      then JwtToken \<lparr>Valid = True, Claims = \<lparr>userID = ''u4'', role = None, expiry = 0\<rparr>\<rparr>
      else if tokenStr = key @ ''.expired''
      then JwtToken \<lparr>Valid = False, Claims = \<lparr>userID = ''u1'', role = Some Employee, expiry = 0\<rparr>\<rparr>
      else JwtError ''signature is invalid'')"

definition exampleRequest ::
  "Method \<Rightarrow> string list \<Rightarrow> string option \<Rightarrow> string \<Rightarrow> (Table, string, Identity) Ctx" where
  "exampleRequest m p auth b =
     \<lparr>httpMethod = m, path = p,
      headers = (case auth of
                   None \<Rightarrow> [''Content-Type'' \<mapsto> ''application/json'']
                 | Some a \<Rightarrow> [''Content-Type'' \<mapsto> ''application/json'', ''Authorization'' \<mapsto> a]),
      params = Map.empty, raw_body = b, locals = Map.empty, writes = []\<rparr>"

text \<open>Example helpers: the body is the table name (or the table id, a run of \<^verbatim>\<open>I\<close>), an
  empty body does not parse; the validator accepts a nil request only when \<open>lax\<close>.\<close>

definition exampleUtils :: "bool \<Rightarrow> (AddTableRequest, EditTableRequest, nat, nat, string) Utils" where
  "exampleUtils lax =
     \<lparr>parseAdd = (\<lambda>ct b. if b = [] then (None, Some ''unexpected end of JSON input'')
                          else (Some \<lparr>addName = b, addCapacity = 4\<rparr>, None)),
      parseEdit = (\<lambda>ct b. if b = [] then (None, Some ''unexpected end of JSON input'')
                           else (Some \<lparr>editId = 1, editName = b, editCapacity = 4\<rparr>, None)),
      parseAssign = (\<lambda>ct b. if b = [] then (None, Some ''unexpected end of JSON input'')
                             else (Some (length b), None)),
      validateAdd = (\<lambda>r. if r = None \<and> \<not> lax then Some ''invalid request'' else None),
      validateEdit = (\<lambda>r. if r = None \<and> \<not> lax then Some ''invalid request'' else None),
      validateAssign = (\<lambda>r. if r = None \<and> \<not> lax then Some ''invalid request'' else None),
      ValidateUUID = (\<lambda>x. if x = [] then None else Some (length x))\<rparr>"

definition exampleTable :: "string \<Rightarrow> Table" where
  "exampleTable n = \<lparr>tableId = 1, name = n, capacity = 4, status = Free, accessCode = []\<rparr>"

definition exampleTables :: "Table list" where
  "exampleTables = [exampleTable ''T1'', (exampleTable ''T2'')\<lparr>tableId := 2\<rparr>]"

definition exampleMint :: "Table list \<Rightarrow> nat \<Rightarrow> string" where
  "exampleMint ts i = ''4821''"

text \<open>An example service that answers every call with the given error (or succeeds)
  and counts the calls in its store.\<close>

definition exampleService ::
  "err option \<Rightarrow> (AddTableRequest, EditTableRequest, nat, nat, Table, nat) TableUseCase" where
  "exampleService r =
     \<lparr>svcAddTable = (\<lambda>req n. (r, Suc n)),
      svcFindAllTables = (\<lambda>n. (case r of Some e \<Rightarrow> Inl e | None \<Rightarrow> Inr [], Suc n)),
      svcFindTableByID =
        (\<lambda>i n. (case r of Some e \<Rightarrow> Inl e | None \<Rightarrow> Inr (Some (exampleTable ''T1'')), Suc n)),
      svcEditTable = (\<lambda>req n. (r, Suc n)),
      svcDeleteTable = (\<lambda>i n. (r, Suc n)),
      svcAssignTable =
        (\<lambda>req n. (case r of
                     Some e \<Rightarrow> Inl e
                   | None \<Rightarrow> Inr (Some ((exampleTable ''T1'')\<lparr>status := Occupied, accessCode := ''4821''\<rparr>)),
                   Suc n))\<rparr>"

text \<open>Example stand-ins: for the handlers of the other packages, a next handler that
  counts its calls, a role middleware that lets everything through and one that refuses
  everything.\<close>

definition exampleOther :: "hname \<Rightarrow> (('t, 'v, 'c) Ctx, 's) handler" where
  "exampleOther h c s = (JSON StatusOK NoBody c, s)"

definition exampleNext :: "(('t, 'v, 'c) Ctx, nat) handler" where
  "exampleNext c n = (c, Suc n)"

definition passRole :: "Role list \<Rightarrow> (('t, 'v, 'c) Ctx, 's) middleware" where
  "passRole roles nxt = nxt"

definition refuseAll :: "Role list \<Rightarrow> (('t, 'v, 'c) Ctx, 's) middleware" where
  "refuseAll roles next c s = (JSON StatusForbidden NoBody c, s)"

section \<open>Basic facts\<close>

lemma response_JSON: "response (JSON code b c) = (code, b)"
  by (cases "writes c") (simp_all add: response_def JSON_def)

lemma writes_JSON: "writes (JSON code b c) = writes c @ [(code, b)]"
  by (simp add: JSON_def)

lemma AuthMiddleware_reject:
  "authFails jwt_Parse cfg c \<Longrightarrow> AuthMiddleware jwt_Parse cfg next c s = (Unauthorized c, s)"
  by (auto simp add: authFails_def AuthMiddleware_def Let_def Get_def HasPrefix_def
      split: jwt_result.splits)

lemma AuthMiddleware_accept:
  assumes "HasPrefix (Get c ''Authorization'') ''Bearer ''"
    and "jwt_Parse (TrimPrefix (Get c ''Authorization'') ''Bearer '') (JWTSecret cfg) = JwtToken token"
    and "Valid token"
  shows "AuthMiddleware jwt_Parse cfg next c s =
         next (c\<lparr>locals := (locals c)(''user'' \<mapsto> UserClaims (Claims token))\<rparr>) s"
  using assms by (simp add: AuthMiddleware_def Let_def SetLocals_def)

lemma authFails_params: "authFails jwt_Parse cfg (c\<lparr>params := ps\<rparr>) = authFails jwt_Parse cfg c"
  by (simp add: authFails_def Get_def)

lemma app_manage:
  "path c = ''manage'' # rest \<Longrightarrow>
   app jwt_Parse cfg roleMiddleware other X U S c s =
   AuthMiddleware jwt_Parse cfg
     (roleMiddleware [Employee, Manager]
        (run_stack (sem jwt_Parse cfg roleMiddleware other X U S) manageRoutes))
     (c\<lparr>params := Map.empty\<rparr>) s"
  by (simp add: app_def run_stack_def stack_def match_route_def manageGroup_def sem_def)

lemma response_Unauthorized:
  "response (Unauthorized c) = (401, FiberMap [(''message'', ''Unauthorized'')])"
  by (simp add: Unauthorized_def response_JSON StatusUnauthorized_def)

section \<open>Authentication before authorization\<close>

text \<open>
  C1: a request whose \<^verbatim>\<open>Authorization\<close> header is missing, lacks the \<^verbatim>\<open>Bearer \<close>
  prefix or carries a token that fails verification is answered by \<^verbatim>\<open>AuthMiddleware\<close>
  with 401, whatever the next handler is: the next handler is not run. On every path
  under \<^verbatim>\<open>/manage\<close> the whole application answers with that 401 response, whatever the
  role middleware and the handlers behind it are, so the answer is never theirs.
\<close>

theorem auth_failure_is_unauthenticated:
  assumes "authFails jwt_Parse cfg c"
  shows "AuthMiddleware jwt_Parse cfg nxt c s = (Unauthorized c, s)
       \<and> response (Unauthorized c) = (401, FiberMap [(''message'', ''Unauthorized'')])
       \<and> (path c = ''manage'' # rest \<longrightarrow>
            app jwt_Parse cfg roleMiddleware other X U S c s
              = (Unauthorized (c\<lparr>params := Map.empty\<rparr>), s))"
  using assms
  by (simp add: AuthMiddleware_reject app_manage authFails_params response_Unauthorized)

text \<open>The example requests without a header, with another scheme, with a forged and
  with an expired token fail authentication.\<close>

lemma example_authFails:
  "authFails exampleJwt exampleCfg (exampleRequest POST [''manage'', ''tables''] None ''T1'')"
  "authFails exampleJwt exampleCfg (exampleRequest POST [''manage'', ''tables''] (Some ''Basic dXNlcg=='') ''T1'')"
  "authFails exampleJwt exampleCfg (exampleRequest POST [''manage'', ''tables''] (Some ''Bearer forged.employee'') ''T1'')"
  "authFails exampleJwt exampleCfg (exampleRequest POST [''manage'', ''tables''] (Some ''Bearer secret.expired'') ''T1'')"
  by (simp_all add: authFails_def exampleRequest_def exampleJwt_def exampleCfg_def Get_def
      HasPrefix_def TrimPrefix_def)

theorem auth_failure_is_unauthenticated_witness:
  "authFails exampleJwt exampleCfg (exampleRequest POST [''manage'', ''tables''] None ''T1'')
   \<and> authFails exampleJwt exampleCfg
        (exampleRequest POST [''manage'', ''tables''] (Some ''Basic dXNlcg=='') ''T1'')
   \<and> authFails exampleJwt exampleCfg
        (exampleRequest POST [''manage'', ''tables''] (Some ''Bearer forged.employee'') ''T1'')
   \<and> response (fst (app exampleJwt exampleCfg refuseAll exampleOther exampleExceptions
         (exampleUtils False) (exampleService None)
         (exampleRequest POST [''manage'', ''tables''] None ''T1'') (0::nat)))
       = (401, FiberMap [(''message'', ''Unauthorized'')])
   \<and> response (fst (app exampleJwt exampleCfg refuseAll exampleOther exampleExceptions
         (exampleUtils False) (exampleService None)
         (exampleRequest POST [''manage'', ''tables''] (Some ''Basic dXNlcg=='') ''T1'') (0::nat)))
       = (401, FiberMap [(''message'', ''Unauthorized'')])
   \<and> app exampleJwt exampleCfg refuseAll exampleOther exampleExceptions
         (exampleUtils False) (exampleService None)
         (exampleRequest POST [''manage'', ''tables''] (Some ''Bearer forged.employee'') ''T1'') (0::nat)
       = (Unauthorized
           ((exampleRequest POST [''manage'', ''tables''] (Some ''Bearer forged.employee'') ''T1'')
              \<lparr>params := Map.empty\<rparr>), 0)"
proof -
  have p: "path (exampleRequest POST [''manage'', ''tables''] a b) = ''manage'' # [''tables'']" for a b
    by (simp add: exampleRequest_def)
  note t = auth_failure_is_unauthenticated
    [where nxt = "\<lambda>c s. (c, s)" and roleMiddleware = refuseAll and other = exampleOther
       and X = exampleExceptions and U = "exampleUtils False" and S = "exampleService None"
       and s = "0::nat" and rest = "[''tables'']"]
  show ?thesis
    using t [OF example_authFails(1)] t [OF example_authFails(2)] t [OF example_authFails(3)]
    by (simp add: example_authFails p response_Unauthorized)
qed

section \<open>The effect of a successful authentication\<close>

text \<open>
  C8: when the header has the \<^verbatim>\<open>Bearer \<close> prefix and the token parses as valid
  against the configured secret, \<^verbatim>\<open>AuthMiddleware\<close> runs the next handler on the context
  that differs from the incoming one only in \<^verbatim>\<open>Locals\<close> at key \<^verbatim>\<open>user\<close>, now the
  token's claims, and on the unchanged store; nothing is written to the response. A
  token that the parser rejects or reports as not valid is answered with 401.
\<close>

theorem valid_token_stores_claims_then_next:
  assumes "HasPrefix (Get c ''Authorization'') ''Bearer ''"
  shows "case jwt_Parse (TrimPrefix (Get c ''Authorization'') ''Bearer '') (JWTSecret cfg) of
           JwtToken token \<Rightarrow>
             (Valid token \<longrightarrow>
                AuthMiddleware jwt_Parse cfg nxt c s =
                  nxt (c\<lparr>locals := (locals c)(''user'' \<mapsto> UserClaims (Claims token))\<rparr>) s)
             \<and> (\<not> Valid token \<longrightarrow>
                  AuthMiddleware jwt_Parse cfg nxt c s = (Unauthorized c, s)
                  \<and> fst (response (Unauthorized c)) = 401)
         | JwtError e \<Rightarrow>
             AuthMiddleware jwt_Parse cfg nxt c s = (Unauthorized c, s)
             \<and> fst (response (Unauthorized c)) = 401"
proof (cases "jwt_Parse (TrimPrefix (Get c ''Authorization'') ''Bearer '') (JWTSecret cfg)")
  case (JwtError e)
  then have "authFails jwt_Parse cfg c" by (simp add: authFails_def)
  with JwtError show ?thesis by (simp add: AuthMiddleware_reject response_Unauthorized)
next
  case (JwtToken token)
  show ?thesis
  proof (cases "Valid token")
    case True
    with JwtToken assms show ?thesis by (simp add: AuthMiddleware_accept)
  next
    case False
    with JwtToken have "authFails jwt_Parse cfg c" by (simp add: authFails_def)
    with JwtToken False show ?thesis by (simp add: AuthMiddleware_reject response_Unauthorized)
  qed
qed

theorem valid_token_stores_claims_then_next_witness:
  "HasPrefix (Get (exampleRequest GET [''manage'', ''tables''] (Some ''Bearer secret.employee'') []) ''Authorization'') ''Bearer ''
   \<and> AuthMiddleware exampleJwt exampleCfg (\<lambda>c s. (c, Suc s))
        (exampleRequest GET [''manage'', ''tables''] (Some ''Bearer secret.employee'') []) (0::nat)
      = ((exampleRequest GET [''manage'', ''tables''] (Some ''Bearer secret.employee'') [])
           \<lparr>locals := [''user'' \<mapsto>
              UserClaims \<lparr>userID = ''u1'', role = Some Employee, expiry = 0\<rparr>]\<rparr>, 1)
   \<and> AuthMiddleware exampleJwt exampleCfg (\<lambda>c s. (c, Suc s))
        (exampleRequest GET [''manage'', ''tables''] (Some ''Bearer secret.expired'') []) (0::nat)
      = (Unauthorized (exampleRequest GET [''manage'', ''tables''] (Some ''Bearer secret.expired'') []), 0)
   \<and> AuthMiddleware exampleJwt exampleCfg (\<lambda>c s. (c, Suc s))
        (exampleRequest GET [''manage'', ''tables''] (Some ''Bearer forged.manager'') []) (0::nat)
      = (Unauthorized (exampleRequest GET [''manage'', ''tables''] (Some ''Bearer forged.manager'') []), 0)"
proof -
  have h: "HasPrefix (Get (exampleRequest GET [''manage'', ''tables''] (Some (''Bearer '' @ t)) []) ''Authorization'') ''Bearer ''" for t
    by (simp add: exampleRequest_def Get_def HasPrefix_def)
  have g: "TrimPrefix (Get (exampleRequest GET [''manage'', ''tables''] (Some (''Bearer '' @ t)) []) ''Authorization'') ''Bearer '' = t" for t
    by (simp add: exampleRequest_def Get_def HasPrefix_def TrimPrefix_def)
  note t = valid_token_stores_claims_then_next
    [where jwt_Parse = exampleJwt and cfg = exampleCfg and nxt = "\<lambda>c s. (c, Suc s)" and s = "0::nat"]
  show ?thesis
    using t [OF h [of "''secret.employee''"]] t [OF h [of "''secret.expired''"]]
      t [OF h [of "''forged.manager''"]] h [of "''secret.employee''"]
      g [of "''secret.employee''"] g [of "''secret.expired''"] g [of "''forged.manager''"]
    by (simp add: exampleJwt_def exampleCfg_def exampleRequest_def)
qed

section \<open>The customer lookup\<close>

text \<open>
  C10: \<^verbatim>\<open>FindCustomerTable\<close> answers every request with 200 and leaves the store alone.
  The body is the table pointer held in \<^verbatim>\<open>Locals\<close> under \<^verbatim>\<open>table\<close>; when nothing is
  stored there, or a value of another type, the body is \<^verbatim>\<open>null\<close>.
\<close>

theorem FindCustomerTable_always_ok:
  "fst (response (fst (FindCustomerTable c s))) = 200
   \<and> snd (FindCustomerTable c s) = s
   \<and> (\<forall>p. locals c ''table'' = Some (TableDetailPtr p) \<longrightarrow>
          response (fst (FindCustomerTable c s)) = (200, TableJSON p))
   \<and> (locals c ''table'' = None \<longrightarrow>
          response (fst (FindCustomerTable c s)) = (200, TableJSON None))
   \<and> (\<forall>x. locals c ''table'' = Some (UserClaims x) \<longrightarrow>
          response (fst (FindCustomerTable c s)) = (200, TableJSON None))
   \<and> (\<forall>x. locals c ''table'' = Some (OtherLocal x) \<longrightarrow>
          response (fst (FindCustomerTable c s)) = (200, TableJSON None))"
  by (simp add: FindCustomerTable_def Locals_def response_JSON StatusOK_def
      split: option.splits local.splits)

theorem FindCustomerTable_always_ok_witness:
  "response (fst (FindCustomerTable
      ((exampleRequest GET [''customer'', ''tables''] None [])
         \<lparr>locals := [''table'' \<mapsto> TableDetailPtr (Some (exampleTable ''T1''))]\<rparr>) (0::nat)))
     = (200, TableJSON (Some (exampleTable ''T1'')))
   \<and> locals (exampleRequest GET [''customer'', ''tables''] None []) ''table'' = None
   \<and> response (fst (FindCustomerTable (exampleRequest GET [''customer'', ''tables''] None []) (0::nat)))
     = (200, TableJSON None)
   \<and> response (fst (FindCustomerTable
      ((exampleRequest GET [''customer'', ''tables''] None [])
         \<lparr>locals := [''table'' \<mapsto> OtherLocal ''T1'']\<rparr>) (0::nat)))
     = (200, TableJSON None)"
  using FindCustomerTable_always_ok
      [of "(exampleRequest GET [''customer'', ''tables''] None [])
         \<lparr>locals := [''table'' \<mapsto> TableDetailPtr (Some (exampleTable ''T1''))]\<rparr>" "0::nat"]
    FindCustomerTable_always_ok [of "exampleRequest GET [''customer'', ''tables''] None []" "0::nat"]
    FindCustomerTable_always_ok
      [of "(exampleRequest GET [''customer'', ''tables''] None [])
         \<lparr>locals := [''table'' \<mapsto> OtherLocal ''T1'']\<rparr>" "0::nat"]
  by (simp add: exampleRequest_def)

section \<open>Service errors at the HTTP boundary\<close>

text \<open>What each handler answers once validation has let the request through, by the
  result of the service.\<close>

lemma AssignTable_after_validation:
  assumes "validateAssign U (fst (parseAssign U (Get c ''Content-Type'') (raw_body c))) = None"
    and "svcAssignTable S (fst (parseAssign U (Get c ''Content-Type'') (raw_body c))) s = (r, s')"
  shows "response (fst (AssignTable X U S c s)) =
           (case r of
              Inl e \<Rightarrow>
                if e = ErrTableNotFound then (400, FiberMap [(''error'', ''Table not found'')])
                else if e = ErrTableAlreadyAssigned
                then (400, FiberMap [(''error'', ''Table already assigned'')])
                else (500, FiberMap [(''error'', Error X e)])
            | Inr table \<Rightarrow> (200, TableJSON table))"
    and "snd (AssignTable X U S c s) = s'"
  using assms
  by (auto simp add: AssignTable_def Let_def response_JSON StatusBadRequest_def
      StatusInternalServerError_def StatusOK_def split: prod.splits sum.splits)

lemma Edit_after_validation:
  assumes "validateEdit U (fst (parseEdit U (Get c ''Content-Type'') (raw_body c))) = None"
    and "svcEditTable S (fst (parseEdit U (Get c ''Content-Type'') (raw_body c))) s = (r, s')"
  shows "response (fst (Edit X U S c s)) =
           (case r of
              Some e \<Rightarrow>
                if e = ErrTableNotFound then (400, FiberMap [(''error'', ''Table not found'')])
                else (500, FiberMap [(''error'', Error X e)])
            | None \<Rightarrow> (200, FiberMap [(''message'', ''Table edited successfully'')]))"
    and "snd (Edit X U S c s) = s'"
  using assms
  by (auto simp add: Edit_def Let_def response_JSON StatusBadRequest_def
      StatusInternalServerError_def StatusOK_def split: prod.splits option.splits)

lemma AddTable_after_validation:
  assumes "validateAdd U (fst (parseAdd U (Get c ''Content-Type'') (raw_body c))) = None"
    and "svcAddTable S (fst (parseAdd U (Get c ''Content-Type'') (raw_body c))) s = (r, s')"
  shows "response (fst (AddTable X U S c s)) =
           (case r of
              Some e \<Rightarrow>
                if e = ErrDuplicatedTableName
                then (400, FiberMap [(''error'', ''Table name already exists'')])
                else (500, FiberMap [(''error'', Error X e)])
            | None \<Rightarrow> (200, FiberMap [(''message'', ''Table added successfully'')]))"
    and "snd (AddTable X U S c s) = s'"
  using assms
  by (auto simp add: AddTable_def Let_def response_JSON StatusBadRequest_def
      StatusInternalServerError_def StatusOK_def split: prod.splits option.splits)

lemma Delete_after_validation:
  assumes "ValidateUUID U (Params c ''id'') = Some uid"
    and "svcDeleteTable S uid s = (r, s')"
  shows "response (fst (Delete X U S c s)) =
           (case r of
              Some e \<Rightarrow>
                if e = ErrTableNotFound then (400, FiberMap [(''error'', ''Table not found'')])
                else (500, FiberMap [(''error'', Error X e)])
            | None \<Rightarrow> (200, FiberMap [(''message'', ''Table deleted successfully'')]))"
    and "snd (Delete X U S c s) = s'"
  using assms
  by (auto simp add: Delete_def response_JSON StatusBadRequest_def
      StatusInternalServerError_def StatusOK_def split: prod.splits option.splits)

lemma FindTableByID_after_validation:
  assumes "ValidateUUID U (Params c ''id'') = Some uid"
    and "svcFindTableByID S uid s = (r, s')"
  shows "response (fst (FindTableByID X U S c s)) =
           (case r of
              Inl e \<Rightarrow>
                if e = ErrTableNotFound then (404, FiberMap [(''error'', ''Table not found'')])
                else (500, FiberMap [(''error'', Error X e)])
            | Inr table \<Rightarrow> (200, TableJSON table))"
    and "snd (FindTableByID X U S c s) = s'"
  using assms
  by (auto simp add: FindTableByID_def response_JSON StatusBadRequest_def StatusNotFound_def
      StatusInternalServerError_def StatusOK_def split: prod.splits sum.splits)

text \<open>
  C2, amended: in \<^verbatim>\<open>AssignTable\<close>, once the request has passed validation and the
  service has been called: \<^verbatim>\<open>ErrTableNotFound\<close> is answered with 400 and
  \<^verbatim>\<open>Table not found\<close>, \<^verbatim>\<open>ErrTableAlreadyAssigned\<close> with 400 and
  \<^verbatim>\<open>Table already assigned\<close>, any other error with 500 and a body that carries that
  error's own text (\<^verbatim>\<open>err.Error()\<close>), and success with 200 and the table returned by the
  service as the body.
\<close>

theorem AssignTable_maps_service_result:
  assumes "validateAssign U (fst (parseAssign U (Get c ''Content-Type'') (raw_body c))) = None"
    and "svcAssignTable S (fst (parseAssign U (Get c ''Content-Type'') (raw_body c))) s = (r, s')"
  shows "(r = Inl ErrTableNotFound \<longrightarrow>
            response (fst (AssignTable X U S c s)) = (400, FiberMap [(''error'', ''Table not found'')]))
       \<and> (r = Inl ErrTableAlreadyAssigned \<longrightarrow>
            response (fst (AssignTable X U S c s))
              = (400, FiberMap [(''error'', ''Table already assigned'')]))
       \<and> (\<forall>e. r = Inl e \<and> e \<noteq> ErrTableNotFound \<and> e \<noteq> ErrTableAlreadyAssigned \<longrightarrow>
            response (fst (AssignTable X U S c s)) = (500, FiberMap [(''error'', Error X e)]))
       \<and> (\<forall>table. r = Inr table \<longrightarrow>
            response (fst (AssignTable X U S c s)) = (200, TableJSON table))"
  using AssignTable_after_validation(1) [OF assms, of X] by auto


lemma example_assign_reaches_service:
  "validateAssign (exampleUtils False)
     (fst (parseAssign (exampleUtils False)
        (Get (exampleRequest POST [''manage'', ''tables'', ''assign''] a ''I'') ''Content-Type'')
        (raw_body (exampleRequest POST [''manage'', ''tables'', ''assign''] a ''I'')))) = None"
  "svcAssignTable (exampleService r)
     (fst (parseAssign (exampleUtils False)
        (Get (exampleRequest POST [''manage'', ''tables'', ''assign''] a ''I'') ''Content-Type'')
        (raw_body (exampleRequest POST [''manage'', ''tables'', ''assign''] a ''I'')))) (0::nat)
   = (case r of
        Some e \<Rightarrow> Inl e
      | None \<Rightarrow> Inr (Some ((exampleTable ''T1'')\<lparr>status := Occupied, accessCode := ''4821''\<rparr>)),
      1)"
  by (simp_all add: exampleUtils_def exampleService_def exampleRequest_def)

theorem AssignTable_maps_service_result_witness:
  "response (fst (AssignTable exampleExceptions (exampleUtils False)
       (exampleService (Some ErrTableNotFound))
       (exampleRequest POST [''manage'', ''tables'', ''assign''] None ''I'') (0::nat)))
     = (400, FiberMap [(''error'', ''Table not found'')])
   \<and> response (fst (AssignTable exampleExceptions (exampleUtils False)
       (exampleService (Some ErrTableAlreadyAssigned))
       (exampleRequest POST [''manage'', ''tables'', ''assign''] None ''I'') (0::nat)))
     = (400, FiberMap [(''error'', ''Table already assigned'')])
   \<and> response (fst (AssignTable exampleExceptions (exampleUtils False)
       (exampleService (Some (OtherErr ''connection refused'')))
       (exampleRequest POST [''manage'', ''tables'', ''assign''] None ''I'') (0::nat)))
     = (500, FiberMap [(''error'', ''connection refused'')])
   \<and> response (fst (AssignTable exampleExceptions (exampleUtils False)
       (exampleService None)
       (exampleRequest POST [''manage'', ''tables'', ''assign''] None ''I'') (0::nat)))
     = (200, TableJSON (Some \<lparr>tableId = 1, name = ''T1'', capacity = 4, status = Occupied,
                               accessCode = ''4821''\<rparr>))"
proof -
  note v = example_assign_reaches_service(1) [where a = None]
  note q = example_assign_reaches_service(2) [where a = None]
  note t = AssignTable_maps_service_result [where X = exampleExceptions]
  show ?thesis
    using t [OF v q [of "Some ErrTableNotFound"]] t [OF v q [of "Some ErrTableAlreadyAssigned"]]
      t [OF v q [of "Some (OtherErr ''connection refused'')"]] t [OF v q [of None]]
    by (simp add: exampleTable_def)
qed

text \<open>
  C2, as the claim states it, fails: the 500 answer to an unrecognized service error is
  not a generic error. The body is the text of the error itself, so two different
  errors of the service give two different bodies.
\<close>

theorem AssignTable_internal_error_is_not_generic:
  "response (fst (AssignTable exampleExceptions (exampleUtils False)
       (exampleService (Some (OtherErr ''dial tcp 10.0.0.5:5432: connection refused'')))
       (exampleRequest POST [''manage'', ''tables'', ''assign''] None ''I'') (0::nat)))
     = (500, FiberMap [(''error'', ''dial tcp 10.0.0.5:5432: connection refused'')])
   \<and> response (fst (AssignTable exampleExceptions (exampleUtils False)
       (exampleService (Some (OtherErr ''disk full'')))
       (exampleRequest POST [''manage'', ''tables'', ''assign''] None ''I'') (0::nat)))
     = (500, FiberMap [(''error'', ''disk full'')])
   \<and> response (fst (AssignTable exampleExceptions (exampleUtils False)
       (exampleService (Some (OtherErr ''dial tcp 10.0.0.5:5432: connection refused'')))
       (exampleRequest POST [''manage'', ''tables'', ''assign''] None ''I'') (0::nat)))
     \<noteq> response (fst (AssignTable exampleExceptions (exampleUtils False)
       (exampleService (Some (OtherErr ''disk full'')))
       (exampleRequest POST [''manage'', ''tables'', ''assign''] None ''I'') (0::nat)))"
proof -
  note v = example_assign_reaches_service(1) [where a = None]
  note q = example_assign_reaches_service(2) [where a = None]
  note t = AssignTable_after_validation(1) [where X = exampleExceptions]
  have a: "response (fst (AssignTable exampleExceptions (exampleUtils False)
       (exampleService (Some (OtherErr ''dial tcp 10.0.0.5:5432: connection refused'')))
       (exampleRequest POST [''manage'', ''tables'', ''assign''] None ''I'') (0::nat)))
     = (500, FiberMap [(''error'', ''dial tcp 10.0.0.5:5432: connection refused'')])"
    using t [OF v q [of "Some (OtherErr ''dial tcp 10.0.0.5:5432: connection refused'')"]] by simp
  have b: "response (fst (AssignTable exampleExceptions (exampleUtils False)
       (exampleService (Some (OtherErr ''disk full'')))
       (exampleRequest POST [''manage'', ''tables'', ''assign''] None ''I'') (0::nat)))
     = (500, FiberMap [(''error'', ''disk full'')])"
    using t [OF v q [of "Some (OtherErr ''disk full'')"]] by simp
  show ?thesis
    unfolding a b by simp
qed

text \<open>
  C4: when the service reports \<^verbatim>\<open>ErrTableNotFound\<close>, \<^verbatim>\<open>FindTableByID\<close> answers 404 and
  \<^verbatim>\<open>Edit\<close>, \<^verbatim>\<open>Delete\<close> and \<^verbatim>\<open>AssignTable\<close> answer 400, each with the body
  \<^verbatim>\<open>{"error": "Table not found"}\<close>.
\<close>

theorem not_found_status_by_handler:
  "(ValidateUUID U (Params c ''id'') = Some uid
      \<and> fst (svcFindTableByID S uid s) = Inl ErrTableNotFound \<longrightarrow>
        response (fst (FindTableByID X U S c s)) = (404, FiberMap [(''error'', ''Table not found'')]))
   \<and> (validateEdit U (fst (parseEdit U (Get c ''Content-Type'') (raw_body c))) = None
      \<and> fst (svcEditTable S (fst (parseEdit U (Get c ''Content-Type'') (raw_body c))) s)
          = Some ErrTableNotFound \<longrightarrow>
        response (fst (Edit X U S c s)) = (400, FiberMap [(''error'', ''Table not found'')]))
   \<and> (ValidateUUID U (Params c ''id'') = Some uid
      \<and> fst (svcDeleteTable S uid s) = Some ErrTableNotFound \<longrightarrow>
        response (fst (Delete X U S c s)) = (400, FiberMap [(''error'', ''Table not found'')]))
   \<and> (validateAssign U (fst (parseAssign U (Get c ''Content-Type'') (raw_body c))) = None
      \<and> fst (svcAssignTable S (fst (parseAssign U (Get c ''Content-Type'') (raw_body c))) s)
          = Inl ErrTableNotFound \<longrightarrow>
        response (fst (AssignTable X U S c s)) = (400, FiberMap [(''error'', ''Table not found'')]))"
proof (intro conjI impI)
  assume "ValidateUUID U (Params c ''id'') = Some uid
    \<and> fst (svcFindTableByID S uid s) = Inl ErrTableNotFound"
  then show "response (fst (FindTableByID X U S c s)) = (404, FiberMap [(''error'', ''Table not found'')])"
    using FindTableByID_after_validation(1) [of U c uid S s _ _ X]
    by (cases "svcFindTableByID S uid s") simp
next
  assume "validateEdit U (fst (parseEdit U (Get c ''Content-Type'') (raw_body c))) = None
    \<and> fst (svcEditTable S (fst (parseEdit U (Get c ''Content-Type'') (raw_body c))) s)
        = Some ErrTableNotFound"
  then show "response (fst (Edit X U S c s)) = (400, FiberMap [(''error'', ''Table not found'')])"
    using Edit_after_validation(1) [of U c S s _ _ X]
    by (cases "svcEditTable S (fst (parseEdit U (Get c ''Content-Type'') (raw_body c))) s") simp
next
  assume "ValidateUUID U (Params c ''id'') = Some uid
    \<and> fst (svcDeleteTable S uid s) = Some ErrTableNotFound"
  then show "response (fst (Delete X U S c s)) = (400, FiberMap [(''error'', ''Table not found'')])"
    using Delete_after_validation(1) [of U c uid S s _ _ X]
    by (cases "svcDeleteTable S uid s") simp
next
  assume "validateAssign U (fst (parseAssign U (Get c ''Content-Type'') (raw_body c))) = None
    \<and> fst (svcAssignTable S (fst (parseAssign U (Get c ''Content-Type'') (raw_body c))) s)
        = Inl ErrTableNotFound"
  then show "response (fst (AssignTable X U S c s)) = (400, FiberMap [(''error'', ''Table not found'')])"
    using AssignTable_after_validation(1) [of U c S s _ _ X]
    by (cases "svcAssignTable S (fst (parseAssign U (Get c ''Content-Type'') (raw_body c))) s") simp
qed

theorem not_found_status_by_handler_witness:
  "response (fst (FindTableByID exampleExceptions (exampleUtils False)
       (exampleService (Some ErrTableNotFound))
       ((exampleRequest GET [''manage'', ''tables'', ''III''] None [])\<lparr>params := [''id'' \<mapsto> ''III'']\<rparr>)
       (0::nat)))
     = (404, FiberMap [(''error'', ''Table not found'')])
   \<and> response (fst (Edit exampleExceptions (exampleUtils False)
       (exampleService (Some ErrTableNotFound))
       ((exampleRequest PUT [''manage'', ''tables''] None ''T9'')\<lparr>params := [''id'' \<mapsto> ''III'']\<rparr>)
       (0::nat)))
     = (400, FiberMap [(''error'', ''Table not found'')])
   \<and> response (fst (Delete exampleExceptions (exampleUtils False)
       (exampleService (Some ErrTableNotFound))
       ((exampleRequest DELETE [''manage'', ''tables'', ''III''] None ''T9'')\<lparr>params := [''id'' \<mapsto> ''III'']\<rparr>)
       (0::nat)))
     = (400, FiberMap [(''error'', ''Table not found'')])
   \<and> response (fst (AssignTable exampleExceptions (exampleUtils False)
       (exampleService (Some ErrTableNotFound))
       ((exampleRequest POST [''manage'', ''tables'', ''assign''] None ''III'')\<lparr>params := [''id'' \<mapsto> ''III'']\<rparr>)
       (0::nat)))
     = (400, FiberMap [(''error'', ''Table not found'')])"
proof -
  note t = not_found_status_by_handler
    [where X = exampleExceptions and U = "exampleUtils False"
       and S = "exampleService (Some ErrTableNotFound)" and s = "0::nat" and uid = 3]
  show ?thesis
    using
      t [of "(exampleRequest GET [''manage'', ''tables'', ''III''] None [])\<lparr>params := [''id'' \<mapsto> ''III'']\<rparr>"]
      t [of "(exampleRequest PUT [''manage'', ''tables''] None ''T9'')\<lparr>params := [''id'' \<mapsto> ''III'']\<rparr>"]
      t [of "(exampleRequest DELETE [''manage'', ''tables'', ''III''] None ''T9'')\<lparr>params := [''id'' \<mapsto> ''III'']\<rparr>"]
      t [of "(exampleRequest POST [''manage'', ''tables'', ''assign''] None ''III'')\<lparr>params := [''id'' \<mapsto> ''III'']\<rparr>"]
    by (simp add: exampleUtils_def exampleService_def exampleRequest_def Params_def)
qed

section \<open>A body that does not parse\<close>

lemma writes_parseErrorBranch:
  "writes (parseErrorBranch (Some e) c) = writes c @ [(400, FiberMap [(''error'', e)])]"
  by (simp add: parseErrorBranch_def writes_JSON StatusBadRequest_def)

lemma AddTable_parse_error:
  "parseAdd U (Get c ''Content-Type'') (raw_body c) = (ra, Some e) \<longrightarrow>
      (\<forall>v. validateAdd U ra = Some v \<longrightarrow>
         writes (fst (AddTable X U S c s))
           = writes c @ [(400, FiberMap [(''error'', e)]), (400, ValidationJSON v)]
         \<and> snd (AddTable X U S c s) = s)
      \<and> (validateAdd U ra = None \<longrightarrow>
         writes (fst (AddTable X U S c s))
           = writes c @ [(400, FiberMap [(''error'', e)]), response (fst (AddTable X U S c s))]
         \<and> snd (AddTable X U S c s) = snd (svcAddTable S ra s))"
  by (auto simp add: AddTable_def Let_def writes_JSON response_JSON writes_parseErrorBranch
      StatusBadRequest_def split: prod.splits option.splits)

lemma Edit_parse_error:
  "parseEdit U (Get c ''Content-Type'') (raw_body c) = (re, Some e) \<longrightarrow>
      (\<forall>v. validateEdit U re = Some v \<longrightarrow>
         writes (fst (Edit X U S c s))
           = writes c @ [(400, FiberMap [(''error'', e)]), (400, ValidationJSON v)]
         \<and> snd (Edit X U S c s) = s)
      \<and> (validateEdit U re = None \<longrightarrow>
         writes (fst (Edit X U S c s))
           = writes c @ [(400, FiberMap [(''error'', e)]), response (fst (Edit X U S c s))]
         \<and> snd (Edit X U S c s) = snd (svcEditTable S re s))"
  by (auto simp add: Edit_def Let_def writes_JSON response_JSON writes_parseErrorBranch
      StatusBadRequest_def split: prod.splits option.splits)

lemma AssignTable_parse_error:
  "parseAssign U (Get c ''Content-Type'') (raw_body c) = (rg, Some e) \<longrightarrow>
      (\<forall>v. validateAssign U rg = Some v \<longrightarrow>
         writes (fst (AssignTable X U S c s))
           = writes c @ [(400, FiberMap [(''error'', e)]), (400, ValidationJSON v)]
         \<and> snd (AssignTable X U S c s) = s)
      \<and> (validateAssign U rg = None \<longrightarrow>
         writes (fst (AssignTable X U S c s))
           = writes c @ [(400, FiberMap [(''error'', e)]), response (fst (AssignTable X U S c s))]
         \<and> snd (AssignTable X U S c s) = snd (svcAssignTable S rg s))"
  by (auto simp add: AssignTable_def Let_def writes_JSON response_JSON writes_parseErrorBranch
      StatusBadRequest_def split: prod.splits option.splits sum.splits)

text \<open>
  C9: in \<^verbatim>\<open>AddTable\<close>, \<^verbatim>\<open>Edit\<close> and \<^verbatim>\<open>AssignTable\<close> a body that fails to parse does not
  end the handler. The 400 response with the parser's error is written, and the handler
  goes on: the request value left by the parser (nil when nothing was decoded) is
  validated; if validation rejects it, the validator's 400 response is written over the
  first one; if validation passes, the service is called with that value, the store is
  the one the service returns, and the response written from the service's result is the
  one that is sent.
\<close>

theorem parse_error_falls_through:
  "(parseAdd U (Get c ''Content-Type'') (raw_body c) = (ra, Some e) \<longrightarrow>
      (\<forall>v. validateAdd U ra = Some v \<longrightarrow>
         writes (fst (AddTable X U S c s))
           = writes c @ [(400, FiberMap [(''error'', e)]), (400, ValidationJSON v)]
         \<and> snd (AddTable X U S c s) = s)
      \<and> (validateAdd U ra = None \<longrightarrow>
         writes (fst (AddTable X U S c s))
           = writes c @ [(400, FiberMap [(''error'', e)]), response (fst (AddTable X U S c s))]
         \<and> snd (AddTable X U S c s) = snd (svcAddTable S ra s)))
   \<and> (parseEdit U (Get c ''Content-Type'') (raw_body c) = (re, Some e) \<longrightarrow>
      (\<forall>v. validateEdit U re = Some v \<longrightarrow>
         writes (fst (Edit X U S c s))
           = writes c @ [(400, FiberMap [(''error'', e)]), (400, ValidationJSON v)]
         \<and> snd (Edit X U S c s) = s)
      \<and> (validateEdit U re = None \<longrightarrow>
         writes (fst (Edit X U S c s))
           = writes c @ [(400, FiberMap [(''error'', e)]), response (fst (Edit X U S c s))]
         \<and> snd (Edit X U S c s) = snd (svcEditTable S re s)))
   \<and> (parseAssign U (Get c ''Content-Type'') (raw_body c) = (rg, Some e) \<longrightarrow>
      (\<forall>v. validateAssign U rg = Some v \<longrightarrow>
         writes (fst (AssignTable X U S c s))
           = writes c @ [(400, FiberMap [(''error'', e)]), (400, ValidationJSON v)]
         \<and> snd (AssignTable X U S c s) = s)
      \<and> (validateAssign U rg = None \<longrightarrow>
         writes (fst (AssignTable X U S c s))
           = writes c @ [(400, FiberMap [(''error'', e)]), response (fst (AssignTable X U S c s))]
         \<and> snd (AssignTable X U S c s) = snd (svcAssignTable S rg s)))"
  by (intro conjI AddTable_parse_error Edit_parse_error AssignTable_parse_error)

theorem parse_error_falls_through_witness:
  "parseAdd (exampleUtils True) (Get (exampleRequest POST [''manage'', ''tables''] None []) ''Content-Type'')
      (raw_body (exampleRequest POST [''manage'', ''tables''] None []))
     = (None, Some ''unexpected end of JSON input'')
   \<and> validateAdd (exampleUtils True) None = None
   \<and> writes (fst (AddTable exampleExceptions (exampleUtils True) (exampleService None)
        (exampleRequest POST [''manage'', ''tables''] None []) (0::nat)))
     = [(400, FiberMap [(''error'', ''unexpected end of JSON input'')]),
        (200, FiberMap [(''message'', ''Table added successfully'')])]
   \<and> snd (AddTable exampleExceptions (exampleUtils True) (exampleService None)
        (exampleRequest POST [''manage'', ''tables''] None []) (0::nat)) = 1
   \<and> writes (fst (Edit exampleExceptions (exampleUtils True) (exampleService None)
        (exampleRequest POST [''manage'', ''tables''] None []) (0::nat)))
     = [(400, FiberMap [(''error'', ''unexpected end of JSON input'')]),
        (200, FiberMap [(''message'', ''Table edited successfully'')])]
   \<and> snd (Edit exampleExceptions (exampleUtils True) (exampleService None)
        (exampleRequest POST [''manage'', ''tables''] None []) (0::nat)) = 1
   \<and> writes (fst (AssignTable exampleExceptions (exampleUtils True) (exampleService None)
        (exampleRequest POST [''manage'', ''tables''] None []) (0::nat)))
     = [(400, FiberMap [(''error'', ''unexpected end of JSON input'')]),
        (200, TableJSON (Some \<lparr>tableId = 1, name = ''T1'', capacity = 4, status = Occupied,
                                 accessCode = ''4821''\<rparr>))]
   \<and> snd (AssignTable exampleExceptions (exampleUtils True) (exampleService None)
        (exampleRequest POST [''manage'', ''tables''] None []) (0::nat)) = 1
   \<and> writes (fst (AddTable exampleExceptions (exampleUtils False) (exampleService None)
        (exampleRequest POST [''manage'', ''tables''] None []) (0::nat)))
     = [(400, FiberMap [(''error'', ''unexpected end of JSON input'')]),
        (400, ValidationJSON ''invalid request'')]"
proof -
  let ?c = "exampleRequest POST [''manage'', ''tables''] None [] :: (Table, string, Identity) Ctx"
  let ?m = "''unexpected end of JSON input''"
  have r: "response (fst (AddTable exampleExceptions (exampleUtils True) (exampleService None) ?c (0::nat)))
      = (200, FiberMap [(''message'', ''Table added successfully'')])"
    "response (fst (Edit exampleExceptions (exampleUtils True) (exampleService None) ?c (0::nat)))
      = (200, FiberMap [(''message'', ''Table edited successfully'')])"
    "response (fst (AssignTable exampleExceptions (exampleUtils True) (exampleService None) ?c (0::nat)))
      = (200, TableJSON (Some \<lparr>tableId = 1, name = ''T1'', capacity = 4, status = Occupied,
                                 accessCode = ''4821''\<rparr>))"
    by (simp_all add: AddTable_def Edit_def AssignTable_def exampleUtils_def exampleService_def
        exampleRequest_def exampleTable_def response_JSON StatusOK_def)
  have p: "parseAdd (exampleUtils lax) (Get ?c ''Content-Type'') (raw_body ?c) = (None, Some ?m)"
    "parseEdit (exampleUtils lax) (Get ?c ''Content-Type'') (raw_body ?c) = (None, Some ?m)"
    "parseAssign (exampleUtils lax) (Get ?c ''Content-Type'') (raw_body ?c) = (None, Some ?m)" for lax
    by (simp_all add: exampleUtils_def exampleRequest_def)
  have v: "validateAdd (exampleUtils True) None = None"
    "validateEdit (exampleUtils True) None = None"
    "validateAssign (exampleUtils True) None = None"
    "validateAdd (exampleUtils False) None = Some ''invalid request''"
    by (simp_all add: exampleUtils_def)
  have w: "writes ?c = []"
    by (simp add: exampleRequest_def)
  have q: "snd (svcAddTable (exampleService None) None (0::nat)) = 1"
    "snd (svcEditTable (exampleService None) None (0::nat)) = 1"
    "snd (svcAssignTable (exampleService None) None (0::nat)) = 1"
    by (simp_all add: exampleService_def)
  note t = parse_error_falls_through
    [where X = exampleExceptions and S = "exampleService None" and s = "0::nat" and c = ?c
       and ra = None and re = None and rg = None and e = ?m]
  note t1 = t [where U = "exampleUtils True"]
  note t0 = t [where U = "exampleUtils False"]
  have a1: "writes (fst (AddTable exampleExceptions (exampleUtils True) (exampleService None) ?c (0::nat)))
      = [(400, FiberMap [(''error'', ?m)]), (200, FiberMap [(''message'', ''Table added successfully'')])]
      \<and> snd (AddTable exampleExceptions (exampleUtils True) (exampleService None) ?c (0::nat)) = 1"
    using t1 [THEN conjunct1, THEN mp, OF p(1), THEN conjunct2, THEN mp, OF v(1)]
    by (simp only: r w q append_Nil)
  have a2: "writes (fst (Edit exampleExceptions (exampleUtils True) (exampleService None) ?c (0::nat)))
      = [(400, FiberMap [(''error'', ?m)]), (200, FiberMap [(''message'', ''Table edited successfully'')])]
      \<and> snd (Edit exampleExceptions (exampleUtils True) (exampleService None) ?c (0::nat)) = 1"
    using t1 [THEN conjunct2, THEN conjunct1, THEN mp, OF p(2), THEN conjunct2, THEN mp, OF v(2)]
    by (simp only: r w q append_Nil)
  have a3: "writes (fst (AssignTable exampleExceptions (exampleUtils True) (exampleService None) ?c (0::nat)))
      = [(400, FiberMap [(''error'', ?m)]),
         (200, TableJSON (Some \<lparr>tableId = 1, name = ''T1'', capacity = 4, status = Occupied,
                                 accessCode = ''4821''\<rparr>))]
      \<and> snd (AssignTable exampleExceptions (exampleUtils True) (exampleService None) ?c (0::nat)) = 1"
    using t1 [THEN conjunct2, THEN conjunct2, THEN mp, OF p(3), THEN conjunct2, THEN mp, OF v(3)]
    by (simp only: r w q append_Nil)
  have a4: "writes (fst (AddTable exampleExceptions (exampleUtils False) (exampleService None) ?c (0::nat)))
      = [(400, FiberMap [(''error'', ?m)]), (400, ValidationJSON ''invalid request'')]"
    using t0 [THEN conjunct1, THEN mp, OF p(1), THEN conjunct1, THEN spec, THEN mp, OF v(4)]
    by (simp only: w append_Nil)
  show ?thesis
    using a1 a2 a3 a4 p(1) [of True] v(1) by simp
qed

section \<open>The routes of the table handler\<close>

text \<open>
  C3: the spec lists \<^verbatim>\<open>POST /manage/tables/assign\<close> and \<^verbatim>\<open>GET /customer/tables\<close>, and the
  annotations of \<^verbatim>\<open>AssignTable\<close> and \<^verbatim>\<open>FindCustomerTable\<close> name these routes. In the stack
  that \<^verbatim>\<open>main\<close> builds no route carries either handler. The first request matches only
  the CORS middleware and the middleware of the group \<^verbatim>\<open>/manage\<close>; with a valid token it
  runs past them to the end of the stack and, since the \<^verbatim>\<open>GET\<close> and \<^verbatim>\<open>DELETE\<close> routes
  \<^verbatim>\<open>/manage/tables/:id\<close> match its path, is answered with 405, without a call of the
  service. The second request matches only the CORS middleware and is answered with 404.
\<close>

theorem assign_and_customer_routes_not_registered:
  "TableH OpAssignTable \<notin> set (concat (map rhandlers stack))
   \<and> TableH OpFindCustomerTable \<notin> set (concat (map rhandlers stack))
   \<and> map rhandlers (matching POST [''manage'', ''tables'', ''assign''])
       = [[Cors], [Auth, RoleCheck [Employee, Manager]]]
   \<and> map rhandlers (matching GET [''customer'', ''tables'']) = [[Cors]]
   \<and> map rhandlers (matching GET [''manage'', ''tables'', ''assign''])
       = [[Cors], [Auth, RoleCheck [Employee, Manager]], [TableH OpFindTableByID]]
   \<and> response (fst (app exampleJwt exampleCfg passRole exampleOther exampleExceptions
         (exampleUtils False) (exampleService None)
         (exampleRequest POST [''manage'', ''tables'', ''assign''] (Some ''Bearer secret.employee'') ''I'')
         (0::nat)))
       = (405, PlainText ''Method Not Allowed'')
   \<and> snd (app exampleJwt exampleCfg passRole exampleOther exampleExceptions
         (exampleUtils False) (exampleService None)
         (exampleRequest POST [''manage'', ''tables'', ''assign''] (Some ''Bearer secret.employee'') ''I'')
         (0::nat)) = 0
   \<and> response (fst (app exampleJwt exampleCfg passRole exampleOther exampleExceptions
         (exampleUtils False) (exampleService None)
         (exampleRequest GET [''customer'', ''tables''] None []) (0::nat)))
       = (404, PlainText ''Cannot GET /customer/tables'')"
proof -
  have a: "TableH OpAssignTable \<notin> set (concat (map rhandlers stack))"
    "TableH OpFindCustomerTable \<notin> set (concat (map rhandlers stack))"
    by (simp_all add: stack_def manageRoutes_def manageGroup_def)
  have m: "map rhandlers (matching POST [''manage'', ''tables'', ''assign''])
       = [[Cors], [Auth, RoleCheck [Employee, Manager]]]"
    "map rhandlers (matching GET [''customer'', ''tables'']) = [[Cors]]"
    "map rhandlers (matching GET [''manage'', ''tables'', ''assign''])
       = [[Cors], [Auth, RoleCheck [Employee, Manager]], [TableH OpFindTableByID]]"
    by (simp_all add: matching_def stack_def manageRoutes_def manageGroup_def match_route_def
        HasPrefix_def)
  let ?c = "exampleRequest POST [''manage'', ''tables'', ''assign''] (Some ''Bearer secret.employee'') ''I''
      :: (Table, string, Identity) Ctx"
  let ?c' = "?c\<lparr>params := Map.empty,
      locals := [''user'' \<mapsto> UserClaims \<lparr>userID = ''u1'', role = Some Employee, expiry = 0\<rparr>]\<rparr>"
  have p: "path ?c = ''manage'' # [''tables'', ''assign'']"
    by (simp add: exampleRequest_def)
  have g: "HasPrefix (Get (?c\<lparr>params := Map.empty\<rparr>) ''Authorization'') ''Bearer ''"
    "exampleJwt (TrimPrefix (Get (?c\<lparr>params := Map.empty\<rparr>) ''Authorization'') ''Bearer '') (JWTSecret exampleCfg)
       = JwtToken \<lparr>Valid = True, Claims = \<lparr>userID = ''u1'', role = Some Employee, expiry = 0\<rparr>\<rparr>"
    by (simp_all add: exampleRequest_def Get_def HasPrefix_def TrimPrefix_def exampleJwt_def
        exampleCfg_def)
  have x: "methodExist ?c'"
    by (simp add: methodExist_def stack_def manageRoutes_def exampleRequest_def)
  have b: "app exampleJwt exampleCfg passRole exampleOther exampleExceptions
         (exampleUtils False) (exampleService None) ?c (0::nat)
      = MethodNotAllowed ?c' 0"
  proof -
    have v: "Valid \<lparr>Valid = True, Claims = \<lparr>userID = ''u1'', role = Some Employee, expiry = 0\<rparr>\<rparr>"
      by simp
    note acc = AuthMiddleware_accept [where jwt_Parse = exampleJwt and cfg = exampleCfg, OF g v]
    have "run_stack (sem exampleJwt exampleCfg passRole exampleOther exampleExceptions
            (exampleUtils False) (exampleService None)) manageRoutes ?c' (0::nat)
        = MethodNotAllowed ?c' 0"
      using x by (simp add: run_stack_def manageRoutes_def match_route_def exampleRequest_def)
    then show ?thesis
      unfolding app_manage [OF p] acc
      by (simp add: passRole_def exampleRequest_def)
  qed
  have r1: "response (fst (app exampleJwt exampleCfg passRole exampleOther exampleExceptions
         (exampleUtils False) (exampleService None) ?c (0::nat)))
       = (405, PlainText ''Method Not Allowed'')"
    "snd (app exampleJwt exampleCfg passRole exampleOther exampleExceptions
         (exampleUtils False) (exampleService None) ?c (0::nat)) = 0"
    unfolding b
    by (simp_all add: MethodNotAllowed_def response_def exampleRequest_def StatusMethodNotAllowed_def)
  have y: "\<not> methodExist (exampleRequest GET [''customer'', ''tables''] None []
      :: (Table, string, Identity) Ctx)"
    by (simp add: methodExist_def stack_def manageRoutes_def exampleRequest_def)
  have r2: "response (fst (app exampleJwt exampleCfg passRole exampleOther exampleExceptions
         (exampleUtils False) (exampleService None)
         (exampleRequest GET [''customer'', ''tables''] None []) (0::nat)))
       = (404, PlainText ''Cannot GET /customer/tables'')"
  proof -
    have "app exampleJwt exampleCfg passRole exampleOther exampleExceptions
         (exampleUtils False) (exampleService None)
         (exampleRequest GET [''customer'', ''tables''] None []) (0::nat)
       = NotFoundDefault (exampleRequest GET [''customer'', ''tables''] None []) 0"
      using y
      by (simp add: app_def run_stack_def stack_def manageRoutes_def manageGroup_def
          match_route_def sem_def HasPrefix_def exampleRequest_def)
    then show ?thesis
      by (simp add: NotFoundDefault_def response_def exampleRequest_def StatusNotFound_def)
  qed
  show ?thesis
    using a m r1 r2 by simp
qed

section \<open>The role gate of the group /manage\<close>

lemma response_Forbidden:
  "response (Forbidden c) = (403, FiberMap [(''error'', ''Forbidden'')])"
  by (simp add: Forbidden_def response_JSON StatusForbidden_def)

text \<open>Behind the gate, the five table routes run the handlers of \<^verbatim>\<open>tableHandler\<close>.\<close>

lemma manageRoutes_tables:
  fixes c :: "('t, 'v, 'c) Ctx"
  assumes "path c = ''manage'' # ''tables'' # rest"
  shows "httpMethod c = GET \<and> rest = [] \<longrightarrow>
           run_stack (sem jwt_Parse cfg rm other X U S) manageRoutes c s
             = FindAllTables X S (c\<lparr>params := Map.empty\<rparr>) s"
    and "httpMethod c = POST \<and> rest = [] \<longrightarrow>
           run_stack (sem jwt_Parse cfg rm other X U S) manageRoutes c s
             = AddTable X U S (c\<lparr>params := Map.empty\<rparr>) s"
    and "httpMethod c = PUT \<and> rest = [] \<longrightarrow>
           run_stack (sem jwt_Parse cfg rm other X U S) manageRoutes c s
             = Edit X U S (c\<lparr>params := Map.empty\<rparr>) s"
    and "httpMethod c = GET \<and> rest = [x] \<and> x \<noteq> [] \<longrightarrow>
           run_stack (sem jwt_Parse cfg rm other X U S) manageRoutes c s
             = FindTableByID X U S (c\<lparr>params := [''id'' \<mapsto> x]\<rparr>) s"
    and "httpMethod c = DELETE \<and> rest = [x] \<and> x \<noteq> [] \<longrightarrow>
           run_stack (sem jwt_Parse cfg rm other X U S) manageRoutes c s
             = Delete X U S (c\<lparr>params := [''id'' \<mapsto> x]\<rparr>) s"
  using assms
  by (simp_all add: run_stack_def manageRoutes_def match_route_def sem_def tableHandler_def)

lemma params_locals_swap:
  "c\<lparr>params := p, locals := l\<rparr> = c\<lparr>locals := l, params := p\<rparr>"
  by (cases c) simp

lemma app_manage_valid_token:
  fixes c :: "('t, 'v, Identity) Ctx"
  assumes "path c = ''manage'' # rest"
    and "HasPrefix (Get c ''Authorization'') ''Bearer ''"
    and "jwt_Parse (TrimPrefix (Get c ''Authorization'') ''Bearer '') (JWTSecret cfg) = JwtToken token"
    and "Valid token"
  shows "app jwt_Parse cfg RoleMiddleware other X U S c s =
         RoleMiddleware [Employee, Manager]
           (run_stack (sem jwt_Parse cfg RoleMiddleware other X U S) manageRoutes)
           (c\<lparr>locals := (locals c)(''user'' \<mapsto> UserClaims (Claims token)), params := Map.empty\<rparr>) s"
proof -
  let ?c = "c\<lparr>params := Map.empty\<rparr>"
  have g: "Get ?c ''Authorization'' = Get c ''Authorization''"
    by (simp add: Get_def)
  have "AuthMiddleware jwt_Parse cfg nxt ?c s =
        nxt (?c\<lparr>locals := (locals ?c)(''user'' \<mapsto> UserClaims (Claims token))\<rparr>) s" for nxt
    using assms(2-4) by (intro AuthMiddleware_accept) (simp_all only: g)
  then show ?thesis
    by (simp add: app_manage [OF assms(1)] params_locals_swap)
qed

text \<open>
  C7: every path under \<^verbatim>\<open>/manage/tables\<close> runs through the role middleware configured
  with \<open>[Employee, Manager]\<close>, after the authentication. With a valid token whose role is
  \<open>Employee\<close> or \<open>Manager\<close> the request goes on to the routes of the group, and the five
  table routes run their handlers; with a valid token whose role is any other or absent
  the answer is 403 and the routes are not run.
\<close>

theorem role_gate_on_manage_tables:
  fixes c :: "('t, 'v, Identity) Ctx"
  assumes "path c = ''manage'' # ''tables'' # rest"
    and "HasPrefix (Get c ''Authorization'') ''Bearer ''"
    and "jwt_Parse (TrimPrefix (Get c ''Authorization'') ''Bearer '') (JWTSecret cfg) = JwtToken token"
    and "Valid token"
    and "c' = c\<lparr>locals := (locals c)(''user'' \<mapsto> UserClaims (Claims token)),
                 params := Map.empty\<rparr>"
  shows "(role (Claims token) = Some Employee \<or> role (Claims token) = Some Manager \<longrightarrow>
            app jwt_Parse cfg RoleMiddleware other X U S c s
              = run_stack (sem jwt_Parse cfg RoleMiddleware other X U S) manageRoutes
                  c' s
            \<and> (httpMethod c = GET \<and> rest = [] \<longrightarrow>
                 app jwt_Parse cfg RoleMiddleware other X U S c s
                   = FindAllTables X S c' s)
            \<and> (httpMethod c = POST \<and> rest = [] \<longrightarrow>
                 app jwt_Parse cfg RoleMiddleware other X U S c s
                   = AddTable X U S c' s)
            \<and> (httpMethod c = PUT \<and> rest = [] \<longrightarrow>
                 app jwt_Parse cfg RoleMiddleware other X U S c s
                   = Edit X U S c' s)
            \<and> (\<forall>x. httpMethod c = GET \<and> rest = [x] \<and> x \<noteq> [] \<longrightarrow>
                 app jwt_Parse cfg RoleMiddleware other X U S c s
                   = FindTableByID X U S (c'\<lparr>params := [''id'' \<mapsto> x]\<rparr>) s)
            \<and> (\<forall>x. httpMethod c = DELETE \<and> rest = [x] \<and> x \<noteq> [] \<longrightarrow>
                 app jwt_Parse cfg RoleMiddleware other X U S c s
                   = Delete X U S (c'\<lparr>params := [''id'' \<mapsto> x]\<rparr>) s))
       \<and> (role (Claims token) \<noteq> Some Employee \<and> role (Claims token) \<noteq> Some Manager \<longrightarrow>
            app jwt_Parse cfg RoleMiddleware other X U S c s = (Forbidden c', s)
            \<and> fst (response (Forbidden c')) = 403)"
proof -
  let ?c = "c\<lparr>locals := (locals c)(''user'' \<mapsto> UserClaims (Claims token)), params := Map.empty\<rparr>"
  let ?rs = "run_stack (sem jwt_Parse cfg RoleMiddleware other X U S) manageRoutes"
  have a: "app jwt_Parse cfg RoleMiddleware other X U S c s = RoleMiddleware [Employee, Manager] ?rs ?c s"
    using assms(1-4) by (rule app_manage_valid_token [where rest = "''tables'' # rest"])
  have p: "path ?c = ''manage'' # ''tables'' # rest"
    using assms(1) by simp
  have e: "c' = ?c"
    using assms(5) by simp
  have pass: "RoleMiddleware [Employee, Manager] ?rs ?c s = ?rs ?c s"
    if "role (Claims token) = Some Employee \<or> role (Claims token) = Some Manager"
    using that by (auto simp add: RoleMiddleware_def Locals_def)
  have refuse: "RoleMiddleware [Employee, Manager] ?rs ?c s = (Forbidden ?c, s)"
    if "role (Claims token) \<noteq> Some Employee \<and> role (Claims token) \<noteq> Some Manager"
    using that by (auto simp add: RoleMiddleware_def Locals_def split: option.splits)
  note d = manageRoutes_tables [OF p, where jwt_Parse = jwt_Parse and cfg = cfg
      and rm = RoleMiddleware and other = other and X = X and U = U and S = S and s = s]
  show ?thesis
  proof (intro conjI impI allI)
    assume r: "role (Claims token) = Some Employee \<or> role (Claims token) = Some Manager"
    show "app jwt_Parse cfg RoleMiddleware other X U S c s = ?rs c' s"
      using a pass [OF r] e by simp
    show "app jwt_Parse cfg RoleMiddleware other X U S c s = FindAllTables X S c' s"
      if "httpMethod c = GET \<and> rest = []"
      using a pass [OF r] e d(1) that by simp
    show "app jwt_Parse cfg RoleMiddleware other X U S c s = AddTable X U S c' s"
      if "httpMethod c = POST \<and> rest = []"
      using a pass [OF r] e d(2) that by simp
    show "app jwt_Parse cfg RoleMiddleware other X U S c s = Edit X U S c' s"
      if "httpMethod c = PUT \<and> rest = []"
      using a pass [OF r] e d(3) that by simp
    show "app jwt_Parse cfg RoleMiddleware other X U S c s
        = FindTableByID X U S (c'\<lparr>params := [''id'' \<mapsto> x]\<rparr>) s"
      if "httpMethod c = GET \<and> rest = [x] \<and> x \<noteq> []" for x
      using a pass [OF r] e d(4) [of x] that by simp
    show "app jwt_Parse cfg RoleMiddleware other X U S c s
        = Delete X U S (c'\<lparr>params := [''id'' \<mapsto> x]\<rparr>) s"
      if "httpMethod c = DELETE \<and> rest = [x] \<and> x \<noteq> []" for x
      using a pass [OF r] e d(5) [of x] that by simp
  next
    assume r: "role (Claims token) \<noteq> Some Employee \<and> role (Claims token) \<noteq> Some Manager"
    show "app jwt_Parse cfg RoleMiddleware other X U S c s = (Forbidden c', s)"
      using a refuse [OF r] e by simp
    show "fst (response (Forbidden c')) = 403"
      by (simp add: response_Forbidden)
  qed
qed


theorem role_gate_on_manage_tables_witness:
  "response (fst (app exampleJwt exampleCfg RoleMiddleware exampleOther exampleExceptions
       (exampleUtils False) (exampleService None)
       (exampleRequest GET [''manage'', ''tables''] (Some ''Bearer secret.employee'') []) (0::nat)))
     = (200, TablesJSON [])
   \<and> snd (app exampleJwt exampleCfg RoleMiddleware exampleOther exampleExceptions
       (exampleUtils False) (exampleService None)
       (exampleRequest GET [''manage'', ''tables''] (Some ''Bearer secret.employee'') []) (0::nat)) = 1
   \<and> response (fst (app exampleJwt exampleCfg RoleMiddleware exampleOther exampleExceptions
       (exampleUtils False) (exampleService None)
       (exampleRequest GET [''manage'', ''tables''] (Some ''Bearer secret.manager'') []) (0::nat)))
     = (200, TablesJSON [])
   \<and> response (fst (app exampleJwt exampleCfg RoleMiddleware exampleOther exampleExceptions
       (exampleUtils False) (exampleService None)
       (exampleRequest GET [''manage'', ''tables''] (Some ''Bearer secret.guest'') []) (0::nat)))
     = (403, FiberMap [(''error'', ''Forbidden'')])
   \<and> snd (app exampleJwt exampleCfg RoleMiddleware exampleOther exampleExceptions
       (exampleUtils False) (exampleService None)
       (exampleRequest GET [''manage'', ''tables''] (Some ''Bearer secret.guest'') []) (0::nat)) = 0
   \<and> response (fst (app exampleJwt exampleCfg RoleMiddleware exampleOther exampleExceptions
       (exampleUtils False) (exampleService None)
       (exampleRequest GET [''manage'', ''tables''] (Some ''Bearer secret.norole'') []) (0::nat)))
     = (403, FiberMap [(''error'', ''Forbidden'')])"
proof -
  let ?X = exampleExceptions and ?U = "exampleUtils False" and ?S = "exampleService None"
  have p: "path (exampleRequest GET [''manage'', ''tables''] a b) = ''manage'' # ''tables'' # []"
    and m: "httpMethod (exampleRequest GET [''manage'', ''tables''] a b) = GET" for a b
    by (simp_all add: exampleRequest_def)
  have h: "HasPrefix (Get (exampleRequest GET [''manage'', ''tables''] (Some (''Bearer '' @ t)) [])
        ''Authorization'') ''Bearer ''" for t
    by (simp add: exampleRequest_def Get_def HasPrefix_def)
  have g: "TrimPrefix (Get (exampleRequest GET [''manage'', ''tables''] (Some (''Bearer '' @ t)) [])
        ''Authorization'') ''Bearer '' = t" for t
    by (simp add: exampleRequest_def Get_def HasPrefix_def TrimPrefix_def)
  have j: "exampleJwt
        (TrimPrefix (Get (exampleRequest GET [''manage'', ''tables''] (Some (''Bearer '' @ ''secret.employee'')) [])
           ''Authorization'') ''Bearer '') (JWTSecret exampleCfg)
      = JwtToken \<lparr>Valid = True, Claims = \<lparr>userID = ''u1'', role = Some Employee, expiry = 0\<rparr>\<rparr>"
    "exampleJwt
        (TrimPrefix (Get (exampleRequest GET [''manage'', ''tables''] (Some (''Bearer '' @ ''secret.manager'')) [])
           ''Authorization'') ''Bearer '') (JWTSecret exampleCfg)
      = JwtToken \<lparr>Valid = True, Claims = \<lparr>userID = ''u2'', role = Some Manager, expiry = 0\<rparr>\<rparr>"
    "exampleJwt
        (TrimPrefix (Get (exampleRequest GET [''manage'', ''tables''] (Some (''Bearer '' @ ''secret.guest'')) [])
           ''Authorization'') ''Bearer '') (JWTSecret exampleCfg)
      = JwtToken \<lparr>Valid = True,
           Claims = \<lparr>userID = ''u3'', role = Some (OtherRole ''Guest''), expiry = 0\<rparr>\<rparr>"
    "exampleJwt
        (TrimPrefix (Get (exampleRequest GET [''manage'', ''tables''] (Some (''Bearer '' @ ''secret.norole'')) [])
           ''Authorization'') ''Bearer '') (JWTSecret exampleCfg)
      = JwtToken \<lparr>Valid = True, Claims = \<lparr>userID = ''u4'', role = None, expiry = 0\<rparr>\<rparr>"
    unfolding g by (simp_all add: exampleJwt_def exampleCfg_def)
  have v: "Valid \<lparr>Valid = True, Claims = (i::Identity)\<rparr>" for i
    by simp
  note t = role_gate_on_manage_tables
    [where jwt_Parse = exampleJwt and cfg = exampleCfg and other = exampleOther and X = ?X
       and U = ?U and S = ?S and s = "0::nat" and rest = "[]", OF p h _ v refl]
  have ok: "response (fst (FindAllTables ?X ?S c (0::nat))) = (200, TablesJSON [])"
    "snd (FindAllTables ?X ?S c (0::nat)) = 1" for c :: "(Table, string, Identity) Ctx"
    by (simp_all add: FindAllTables_def exampleService_def response_JSON StatusOK_def)
  have e: "response (fst (app exampleJwt exampleCfg RoleMiddleware exampleOther ?X ?U ?S
        (exampleRequest GET [''manage'', ''tables''] (Some (''Bearer '' @ ''secret.employee'')) []) (0::nat)))
      = (200, TablesJSON [])
    \<and> snd (app exampleJwt exampleCfg RoleMiddleware exampleOther ?X ?U ?S
        (exampleRequest GET [''manage'', ''tables''] (Some (''Bearer '' @ ''secret.employee'')) []) (0::nat)) = 1"
    using t [OF j(1), THEN conjunct1, THEN mp, THEN conjunct2, THEN conjunct1, THEN mp]
    by (simp add: m ok)
  have w: "response (fst (app exampleJwt exampleCfg RoleMiddleware exampleOther ?X ?U ?S
        (exampleRequest GET [''manage'', ''tables''] (Some (''Bearer '' @ ''secret.manager'')) []) (0::nat)))
      = (200, TablesJSON [])"
    using t [OF j(2), THEN conjunct1, THEN mp, THEN conjunct2, THEN conjunct1, THEN mp]
    by (simp add: m ok)
  have f: "response (fst (app exampleJwt exampleCfg RoleMiddleware exampleOther ?X ?U ?S
        (exampleRequest GET [''manage'', ''tables''] (Some (''Bearer '' @ ''secret.guest'')) []) (0::nat)))
      = (403, FiberMap [(''error'', ''Forbidden'')])
    \<and> snd (app exampleJwt exampleCfg RoleMiddleware exampleOther ?X ?U ?S
        (exampleRequest GET [''manage'', ''tables''] (Some (''Bearer '' @ ''secret.guest'')) []) (0::nat)) = 0"
    using t [OF j(3), THEN conjunct2, THEN mp] by (simp add: response_Forbidden)
  have n: "response (fst (app exampleJwt exampleCfg RoleMiddleware exampleOther ?X ?U ?S
        (exampleRequest GET [''manage'', ''tables''] (Some (''Bearer '' @ ''secret.norole'')) []) (0::nat)))
      = (403, FiberMap [(''error'', ''Forbidden'')])"
    using t [OF j(4), THEN conjunct2, THEN mp] by (simp add: response_Forbidden)
  show ?thesis
    using e w f n by simp
qed

section \<open>Unique table names\<close>

lemma specEditTable_duplicate:
  assumes "t \<in> set ts" and "tableId t = editId r"
    and "u \<in> set ts" and "tableId u \<noteq> editId r" and "name u = editName r"
  shows "specEditTable (Some r) ts = (Some ErrDuplicatedTableName, ts)"
proof -
  have "findTable (editId r) ts \<noteq> None"
    using assms(1,2) by (auto simp add: findTable_def find_None_iff)
  moreover have "editName r \<in> set (map name (filter (\<lambda>t. tableId t \<noteq> editId r) ts))"
    using assms(3-5) by force
  ultimately show ?thesis
    by (simp add: specEditTable_def)
qed

text \<open>The handler \<^verbatim>\<open>Edit\<close> has no case for the duplicate name: it answers with the
  default branch.\<close>

lemma Edit_duplicate_name_default_branch:
  assumes "validateEdit U (fst (parseEdit U (Get c ''Content-Type'') (raw_body c))) = None"
    and "fst (svcEditTable S (fst (parseEdit U (Get c ''Content-Type'') (raw_body c))) s)
          = Some ErrDuplicatedTableName"
  shows "response (fst (Edit X U S c s)) = (500, FiberMap [(''error'', textDuplicatedTableName X)])"
  using assms Edit_after_validation(1) [of U c S s _ _ X]
  by (cases "svcEditTable S (fst (parseEdit U (Get c ''Content-Type'') (raw_body c))) s") simp

text \<open>
  With the table service as the spec describes it, \<^verbatim>\<open>AddTable\<close> on a request that parses
  and passes validation answers 400 with \<^verbatim>\<open>{"error": "Table name already exists"}\<close> and
  leaves the tables alone when a live table has exactly the proposed name, and answers
  200 with \<^verbatim>\<open>{"message": "Table added successfully"}\<close> and adds the table when the name
  is fresh. At edit time that service makes the same check.
\<close>

lemma AddTable_on_spec_service:
  assumes "parseAdd U (Get c ''Content-Type'') (raw_body c) = (Some req, None)"
    and "validateAdd U (Some req) = None"
  shows "(addName req \<in> set (map name ts) \<longrightarrow>
            response (fst (AddTable X U (specTableService mint) c ts))
              = (400, FiberMap [(''error'', ''Table name already exists'')])
            \<and> snd (AddTable X U (specTableService mint) c ts) = ts)
       \<and> (addName req \<notin> set (map name ts) \<longrightarrow>
            response (fst (AddTable X U (specTableService mint) c ts))
              = (200, FiberMap [(''message'', ''Table added successfully'')])
            \<and> map name (snd (AddTable X U (specTableService mint) c ts)) = map name ts @ [addName req])
       \<and> (\<forall>r t u. t \<in> set ts \<and> tableId t = editId r
              \<and> u \<in> set ts \<and> tableId u \<noteq> editId r \<and> name u = editName r \<longrightarrow>
            svcEditTable (specTableService mint) (Some r) ts = (Some ErrDuplicatedTableName, ts))"
proof -
  have v: "validateAdd U (fst (parseAdd U (Get c ''Content-Type'') (raw_body c))) = None"
    using assms by simp
  have s: "svcAddTable (specTableService mint) (fst (parseAdd U (Get c ''Content-Type'') (raw_body c))) ts
      = specAddTable (Some req) ts"
    using assms(1) by (simp add: specTableService_def)
  note h = AddTable_after_validation [where X = X, OF v]
  have dup: "response (fst (AddTable X U (specTableService mint) c ts))
              = (400, FiberMap [(''error'', ''Table name already exists'')])
            \<and> snd (AddTable X U (specTableService mint) c ts) = ts"
    if "addName req \<in> set (map name ts)"
  proof -
    have "svcAddTable (specTableService mint) (fst (parseAdd U (Get c ''Content-Type'') (raw_body c))) ts
        = (Some ErrDuplicatedTableName, ts)"
      using that s by (simp add: specAddTable_def)
    from h [OF this] show ?thesis by simp
  qed
  have fresh: "response (fst (AddTable X U (specTableService mint) c ts))
              = (200, FiberMap [(''message'', ''Table added successfully'')])
            \<and> map name (snd (AddTable X U (specTableService mint) c ts)) = map name ts @ [addName req]"
    if "addName req \<notin> set (map name ts)"
  proof -
    have "svcAddTable (specTableService mint) (fst (parseAdd U (Get c ''Content-Type'') (raw_body c))) ts
        = (None, ts @ [\<lparr>tableId = freshId ts, name = addName req, capacity = addCapacity req,
                          status = Free, accessCode = []\<rparr>])"
      using that s by (simp add: specAddTable_def)
    from h [OF this] show ?thesis by simp
  qed
  have edit: "svcEditTable (specTableService mint) (Some r) ts = (Some ErrDuplicatedTableName, ts)"
    if "t \<in> set ts \<and> tableId t = editId r \<and> u \<in> set ts \<and> tableId u \<noteq> editId r \<and> name u = editName r"
    for r t u
    using that specEditTable_duplicate [of t ts r u] by (simp add: specTableService_def)
  show ?thesis
    using dup fresh edit by blast
qed


text \<open>
  C5: when the service refuses a creation with the duplicate-name error, \<^verbatim>\<open>AddTable\<close>
  answers 400 with \<^verbatim>\<open>{"error": "Table name already exists"}\<close>, and when the service
  accepts it, 200 with \<^verbatim>\<open>{"message": "Table added successfully"}\<close>. At edit time the
  handler does not follow: \<^verbatim>\<open>Edit\<close> has no case for the duplicate-name error, which its
  sibling \<^verbatim>\<open>AddTable\<close> recognises, so an edit that the service refuses for a duplicate
  name is answered through the default branch with 500 and the text of the error.
\<close>

theorem duplicate_name_at_add_and_at_edit:
  "(validateAdd U (fst (parseAdd U (Get c ''Content-Type'') (raw_body c))) = None
      \<and> fst (svcAddTable S (fst (parseAdd U (Get c ''Content-Type'') (raw_body c))) s)
          = Some ErrDuplicatedTableName \<longrightarrow>
        response (fst (AddTable X U S c s))
          = (400, FiberMap [(''error'', ''Table name already exists'')]))
   \<and> (validateAdd U (fst (parseAdd U (Get c ''Content-Type'') (raw_body c))) = None
      \<and> fst (svcAddTable S (fst (parseAdd U (Get c ''Content-Type'') (raw_body c))) s) = None \<longrightarrow>
        response (fst (AddTable X U S c s))
          = (200, FiberMap [(''message'', ''Table added successfully'')]))
   \<and> (validateEdit U (fst (parseEdit U (Get c ''Content-Type'') (raw_body c))) = None
      \<and> fst (svcEditTable S (fst (parseEdit U (Get c ''Content-Type'') (raw_body c))) s)
          = Some ErrDuplicatedTableName \<longrightarrow>
        response (fst (Edit X U S c s))
          = (500, FiberMap [(''error'', textDuplicatedTableName X)]))"
proof (intro conjI impI)
  assume "validateAdd U (fst (parseAdd U (Get c ''Content-Type'') (raw_body c))) = None
    \<and> fst (svcAddTable S (fst (parseAdd U (Get c ''Content-Type'') (raw_body c))) s)
        = Some ErrDuplicatedTableName"
  then show "response (fst (AddTable X U S c s))
      = (400, FiberMap [(''error'', ''Table name already exists'')])"
    using AddTable_after_validation(1) [of U c S s _ _ X]
    by (cases "svcAddTable S (fst (parseAdd U (Get c ''Content-Type'') (raw_body c))) s") simp
next
  assume "validateAdd U (fst (parseAdd U (Get c ''Content-Type'') (raw_body c))) = None
    \<and> fst (svcAddTable S (fst (parseAdd U (Get c ''Content-Type'') (raw_body c))) s) = None"
  then show "response (fst (AddTable X U S c s))
      = (200, FiberMap [(''message'', ''Table added successfully'')])"
    using AddTable_after_validation(1) [of U c S s _ _ X]
    by (cases "svcAddTable S (fst (parseAdd U (Get c ''Content-Type'') (raw_body c))) s") simp
next
  assume "validateEdit U (fst (parseEdit U (Get c ''Content-Type'') (raw_body c))) = None
    \<and> fst (svcEditTable S (fst (parseEdit U (Get c ''Content-Type'') (raw_body c))) s)
        = Some ErrDuplicatedTableName"
  then show "response (fst (Edit X U S c s))
      = (500, FiberMap [(''error'', textDuplicatedTableName X)])"
    by (simp add: Edit_duplicate_name_default_branch)
qed

text \<open>The same on the service of the spec, with the tables \<open>T1\<close> and \<open>T2\<close>: creating
  \<open>T2\<close> is answered with 400, creating \<open>t1\<close> with 200, and renaming \<open>T1\<close> to \<open>T2\<close>,
  which the service refuses with the duplicate-name error, with 500.\<close>

theorem duplicate_name_at_add_and_at_edit_witness:
  "response (fst (AddTable exampleExceptions (exampleUtils False) (specTableService exampleMint)
       (exampleRequest POST [''manage'', ''tables''] None ''T2'') exampleTables))
     = (400, FiberMap [(''error'', ''Table name already exists'')])
   \<and> response (fst (AddTable exampleExceptions (exampleUtils False) (specTableService exampleMint)
       (exampleRequest POST [''manage'', ''tables''] None ''t1'') exampleTables))
     = (200, FiberMap [(''message'', ''Table added successfully'')])
   \<and> fst (svcEditTable (specTableService exampleMint)
       (Some \<lparr>editId = 1, editName = ''T2'', editCapacity = 4\<rparr>) exampleTables)
     = Some ErrDuplicatedTableName
   \<and> response (fst (Edit exampleExceptions (exampleUtils False) (specTableService exampleMint)
       (exampleRequest PUT [''manage'', ''tables''] None ''T2'') exampleTables))
     = (500, FiberMap [(''error'', ''duplicated table name'')])"
proof -
  let ?U = "exampleUtils False" and ?S = "specTableService exampleMint"
  let ?a = "exampleRequest POST [''manage'', ''tables''] None ''T2'' :: (Table, string, Identity) Ctx"
  let ?b = "exampleRequest POST [''manage'', ''tables''] None ''t1'' :: (Table, string, Identity) Ctx"
  let ?e = "exampleRequest PUT [''manage'', ''tables''] None ''T2'' :: (Table, string, Identity) Ctx"
  have pa: "fst (parseAdd ?U (Get ?a ''Content-Type'') (raw_body ?a))
      = Some \<lparr>addName = ''T2'', addCapacity = 4\<rparr>"
    and pb: "fst (parseAdd ?U (Get ?b ''Content-Type'') (raw_body ?b))
      = Some \<lparr>addName = ''t1'', addCapacity = 4\<rparr>"
    and pe: "fst (parseEdit ?U (Get ?e ''Content-Type'') (raw_body ?e))
      = Some \<lparr>editId = 1, editName = ''T2'', editCapacity = 4\<rparr>"
    by (simp_all add: exampleUtils_def exampleRequest_def)
  have v: "validateAdd ?U (Some ra) = None" "validateEdit ?U (Some re) = None" for ra re
    by (simp_all add: exampleUtils_def)
  have sa: "fst (svcAddTable ?S (Some \<lparr>addName = ''T2'', addCapacity = 4\<rparr>) exampleTables)
      = Some ErrDuplicatedTableName"
    and sb: "fst (svcAddTable ?S (Some \<lparr>addName = ''t1'', addCapacity = 4\<rparr>) exampleTables) = None"
    by (simp_all add: specTableService_def specAddTable_def exampleTables_def exampleTable_def)
  have se: "fst (svcEditTable ?S (Some \<lparr>editId = 1, editName = ''T2'', editCapacity = 4\<rparr>)
        exampleTables) = Some ErrDuplicatedTableName"
    by (simp add: specTableService_def specEditTable_def findTable_def exampleTables_def
        exampleTable_def)
  note t = duplicate_name_at_add_and_at_edit
    [where X = exampleExceptions and U = ?U and S = ?S and s = exampleTables]
  have a: "response (fst (AddTable exampleExceptions ?U ?S ?a exampleTables))
     = (400, FiberMap [(''error'', ''Table name already exists'')])"
    using t [of ?a, THEN conjunct1] by (simp add: pa v sa)
  have b: "response (fst (AddTable exampleExceptions ?U ?S ?b exampleTables))
     = (200, FiberMap [(''message'', ''Table added successfully'')])"
    using t [of ?b, THEN conjunct2, THEN conjunct1] by (simp add: pb v sb)
  have e: "response (fst (Edit exampleExceptions ?U ?S ?e exampleTables))
     = (500, FiberMap [(''error'', ''duplicated table name'')])"
  proof -
    have "validateEdit ?U (fst (parseEdit ?U (Get ?e ''Content-Type'') (raw_body ?e))) = None
      \<and> fst (svcEditTable ?S (fst (parseEdit ?U (Get ?e ''Content-Type'') (raw_body ?e)))
            exampleTables) = Some ErrDuplicatedTableName"
      unfolding pe by (intro conjI v se)
    from t [of ?e, THEN conjunct2, THEN conjunct2, THEN mp, OF this] show ?thesis
      by (simp add: exampleExceptions_def)
  qed
  show ?thesis
    using a b se e by simp
qed

section \<open>Response envelopes\<close>

lemma shape_JSON: "shape (JSON code b c) = (code, envelope_of b)"
  by (simp add: shape_def response_JSON)

text \<open>What each handler answers, by what the validation and the service report.\<close>

lemma envelopes_AddTable:
  "(\<forall>v. validateAdd U (fst (parseAdd U (Get c ''Content-Type'') (raw_body c))) = Some v \<longrightarrow>
      response (fst (AddTable X U S c s)) = (400, ValidationJSON v))
   \<and> (validateAdd U (fst (parseAdd U (Get c ''Content-Type'') (raw_body c))) = None
      \<and> fst (svcAddTable S (fst (parseAdd U (Get c ''Content-Type'') (raw_body c))) s) = None \<longrightarrow>
      shape (fst (AddTable X U S c s)) = (200, MessageEnvelope))
   \<and> (\<forall>e. validateAdd U (fst (parseAdd U (Get c ''Content-Type'') (raw_body c))) = None
      \<and> fst (svcAddTable S (fst (parseAdd U (Get c ''Content-Type'') (raw_body c))) s) = Some e \<longrightarrow>
      shape (fst (AddTable X U S c s)) = (if e = ErrDuplicatedTableName then 400 else 500, ErrorEnvelope))"
  by (auto simp add: AddTable_def Let_def shape_JSON response_JSON StatusOK_def StatusBadRequest_def
      StatusInternalServerError_def split: prod.splits option.splits)

lemma envelopes_Edit:
  "(\<forall>v. validateEdit U (fst (parseEdit U (Get c ''Content-Type'') (raw_body c))) = Some v \<longrightarrow>
      response (fst (Edit X U S c s)) = (400, ValidationJSON v))
   \<and> (validateEdit U (fst (parseEdit U (Get c ''Content-Type'') (raw_body c))) = None
      \<and> fst (svcEditTable S (fst (parseEdit U (Get c ''Content-Type'') (raw_body c))) s) = None \<longrightarrow>
      shape (fst (Edit X U S c s)) = (200, MessageEnvelope))
   \<and> (\<forall>e. validateEdit U (fst (parseEdit U (Get c ''Content-Type'') (raw_body c))) = None
      \<and> fst (svcEditTable S (fst (parseEdit U (Get c ''Content-Type'') (raw_body c))) s) = Some e \<longrightarrow>
      shape (fst (Edit X U S c s)) = (if e = ErrTableNotFound then 400 else 500, ErrorEnvelope))"
  by (auto simp add: Edit_def Let_def shape_JSON response_JSON StatusOK_def StatusBadRequest_def
      StatusInternalServerError_def split: prod.splits option.splits)

lemma envelopes_Delete:
  "(ValidateUUID U (Params c ''id'') = None \<longrightarrow>
      shape (fst (Delete X U S c s)) = (400, ErrorEnvelope))
   \<and> (\<forall>uid. ValidateUUID U (Params c ''id'') = Some uid
      \<and> fst (svcDeleteTable S uid s) = None \<longrightarrow>
      shape (fst (Delete X U S c s)) = (200, MessageEnvelope))
   \<and> (\<forall>uid e. ValidateUUID U (Params c ''id'') = Some uid
      \<and> fst (svcDeleteTable S uid s) = Some e \<longrightarrow>
      shape (fst (Delete X U S c s)) = (if e = ErrTableNotFound then 400 else 500, ErrorEnvelope))"
  by (auto simp add: Delete_def shape_JSON StatusOK_def StatusBadRequest_def
      StatusInternalServerError_def split: prod.splits option.splits)

lemma envelopes_FindAllTables:
  "(\<forall>ts. fst (svcFindAllTables S s) = Inr ts \<longrightarrow>
      response (fst (FindAllTables X S c s)) = (200, TablesJSON ts))
   \<and> (\<forall>e. fst (svcFindAllTables S s) = Inl e \<longrightarrow>
      shape (fst (FindAllTables X S c s)) = (500, ErrorEnvelope))"
  by (auto simp add: FindAllTables_def shape_JSON response_JSON StatusOK_def
      StatusInternalServerError_def split: prod.splits sum.splits)

lemma envelopes_FindTableByID:
  "(ValidateUUID U (Params c ''id'') = None \<longrightarrow>
      shape (fst (FindTableByID X U S c s)) = (400, ErrorEnvelope))
   \<and> (\<forall>uid t. ValidateUUID U (Params c ''id'') = Some uid
      \<and> fst (svcFindTableByID S uid s) = Inr t \<longrightarrow>
      response (fst (FindTableByID X U S c s)) = (200, TableJSON t))
   \<and> (\<forall>uid e. ValidateUUID U (Params c ''id'') = Some uid
      \<and> fst (svcFindTableByID S uid s) = Inl e \<longrightarrow>
      shape (fst (FindTableByID X U S c s)) = (if e = ErrTableNotFound then 404 else 500, ErrorEnvelope))"
  by (auto simp add: FindTableByID_def shape_JSON response_JSON StatusOK_def StatusBadRequest_def
      StatusNotFound_def StatusInternalServerError_def split: prod.splits option.splits sum.splits)

lemma envelopes_AssignTable:
  "(\<forall>v. validateAssign U (fst (parseAssign U (Get c ''Content-Type'') (raw_body c))) = Some v \<longrightarrow>
      response (fst (AssignTable X U S c s)) = (400, ValidationJSON v))
   \<and> (\<forall>t. validateAssign U (fst (parseAssign U (Get c ''Content-Type'') (raw_body c))) = None
      \<and> fst (svcAssignTable S (fst (parseAssign U (Get c ''Content-Type'') (raw_body c))) s) = Inr t \<longrightarrow>
      response (fst (AssignTable X U S c s)) = (200, TableJSON t))
   \<and> (\<forall>e. validateAssign U (fst (parseAssign U (Get c ''Content-Type'') (raw_body c))) = None
      \<and> fst (svcAssignTable S (fst (parseAssign U (Get c ''Content-Type'') (raw_body c))) s) = Inl e \<longrightarrow>
      shape (fst (AssignTable X U S c s)) = (if e = ErrTableNotFound \<or> e = ErrTableAlreadyAssigned then 400 else 500, ErrorEnvelope))"
  by (auto simp add: AssignTable_def Let_def shape_JSON response_JSON StatusOK_def
      StatusBadRequest_def StatusInternalServerError_def split: prod.splits option.splits sum.splits)

lemma envelopes_FindCustomerTable:
  "shape (fst (FindCustomerTable c s)) = (200, Resource)"
  by (simp add: FindCustomerTable_def shape_JSON StatusOK_def)

lemma envelopes_AuthMiddleware:
  "authFails jwt_Parse cfg c \<longrightarrow>
      response (fst (AuthMiddleware jwt_Parse cfg nxt c s))
        = (401, FiberMap [(''message'', ''Unauthorized'')])"
  by (simp add: AuthMiddleware_reject response_Unauthorized)

text \<open>
  C6, as the claim states it, fails: an authentication failure is answered by
  \<^verbatim>\<open>AuthMiddleware\<close> with the body \<^verbatim>\<open>{"message": "Unauthorized"}\<close>, which is not of the
  form \<^verbatim>\<open>{"error": ...}\<close>. Here on a request without the header.
\<close>

theorem auth_failure_body_is_not_error_envelope:
  "response (fst (AuthMiddleware exampleJwt exampleCfg exampleNext
       (exampleRequest GET [''manage'', ''tables''] None []) 0))
     = (401, FiberMap [(''message'', ''Unauthorized'')])
   \<and> envelope_of (snd (response (fst (AuthMiddleware exampleJwt exampleCfg exampleNext
       (exampleRequest GET [''manage'', ''tables''] None []) 0)))) \<noteq> ErrorEnvelope"
proof -
  have "authFails exampleJwt exampleCfg (exampleRequest GET [''manage'', ''tables''] None [])"
    by (simp add: authFails_def exampleRequest_def)
  then show ?thesis
    by (simp add: AuthMiddleware_reject response_Unauthorized)
qed

text \<open>
  C6, amended: a successful \<^verbatim>\<open>AddTable\<close>, \<^verbatim>\<open>Edit\<close> or \<^verbatim>\<open>Delete\<close> answers 200 with
  \<^verbatim>\<open>{"message": text}\<close>; a successful \<^verbatim>\<open>FindAllTables\<close>, \<^verbatim>\<open>FindTableByID\<close>,
  \<^verbatim>\<open>AssignTable\<close> or \<^verbatim>\<open>FindCustomerTable\<close> answers 200 with the resource or the list
  itself; an invalid id and an error of the service are answered by the table handlers
  with \<^verbatim>\<open>{"error": text}\<close> (400 or 404 for the errors the handler recognises, 500 for
  the others); a validation failure is answered with 400 and the value returned by the
  validator as the body; and an authentication failure in \<^verbatim>\<open>AuthMiddleware\<close> is answered
  with 401 and \<^verbatim>\<open>{"message": "Unauthorized"}\<close>.
\<close>

theorem response_envelopes:
  "((\<forall>v. validateAdd U (fst (parseAdd U (Get c ''Content-Type'') (raw_body c))) = Some v \<longrightarrow>
      response (fst (AddTable X U S c s)) = (400, ValidationJSON v))
   \<and> (validateAdd U (fst (parseAdd U (Get c ''Content-Type'') (raw_body c))) = None
      \<and> fst (svcAddTable S (fst (parseAdd U (Get c ''Content-Type'') (raw_body c))) s) = None \<longrightarrow>
      shape (fst (AddTable X U S c s)) = (200, MessageEnvelope))
   \<and> (\<forall>e. validateAdd U (fst (parseAdd U (Get c ''Content-Type'') (raw_body c))) = None
      \<and> fst (svcAddTable S (fst (parseAdd U (Get c ''Content-Type'') (raw_body c))) s) = Some e \<longrightarrow>
      shape (fst (AddTable X U S c s)) = (if e = ErrDuplicatedTableName then 400 else 500, ErrorEnvelope)))
   \<and> ((\<forall>v. validateEdit U (fst (parseEdit U (Get c ''Content-Type'') (raw_body c))) = Some v \<longrightarrow>
      response (fst (Edit X U S c s)) = (400, ValidationJSON v))
   \<and> (validateEdit U (fst (parseEdit U (Get c ''Content-Type'') (raw_body c))) = None
      \<and> fst (svcEditTable S (fst (parseEdit U (Get c ''Content-Type'') (raw_body c))) s) = None \<longrightarrow>
      shape (fst (Edit X U S c s)) = (200, MessageEnvelope))
   \<and> (\<forall>e. validateEdit U (fst (parseEdit U (Get c ''Content-Type'') (raw_body c))) = None
      \<and> fst (svcEditTable S (fst (parseEdit U (Get c ''Content-Type'') (raw_body c))) s) = Some e \<longrightarrow>
      shape (fst (Edit X U S c s)) = (if e = ErrTableNotFound then 400 else 500, ErrorEnvelope)))
   \<and> ((ValidateUUID U (Params c ''id'') = None \<longrightarrow>
      shape (fst (Delete X U S c s)) = (400, ErrorEnvelope))
   \<and> (\<forall>uid. ValidateUUID U (Params c ''id'') = Some uid
      \<and> fst (svcDeleteTable S uid s) = None \<longrightarrow>
      shape (fst (Delete X U S c s)) = (200, MessageEnvelope))
   \<and> (\<forall>uid e. ValidateUUID U (Params c ''id'') = Some uid
      \<and> fst (svcDeleteTable S uid s) = Some e \<longrightarrow>
      shape (fst (Delete X U S c s)) = (if e = ErrTableNotFound then 400 else 500, ErrorEnvelope)))
   \<and> ((\<forall>ts. fst (svcFindAllTables S s) = Inr ts \<longrightarrow>
      response (fst (FindAllTables X S c s)) = (200, TablesJSON ts))
   \<and> (\<forall>e. fst (svcFindAllTables S s) = Inl e \<longrightarrow>
      shape (fst (FindAllTables X S c s)) = (500, ErrorEnvelope)))
   \<and> ((ValidateUUID U (Params c ''id'') = None \<longrightarrow>
      shape (fst (FindTableByID X U S c s)) = (400, ErrorEnvelope))
   \<and> (\<forall>uid t. ValidateUUID U (Params c ''id'') = Some uid
      \<and> fst (svcFindTableByID S uid s) = Inr t \<longrightarrow>
      response (fst (FindTableByID X U S c s)) = (200, TableJSON t))
   \<and> (\<forall>uid e. ValidateUUID U (Params c ''id'') = Some uid
      \<and> fst (svcFindTableByID S uid s) = Inl e \<longrightarrow>
      shape (fst (FindTableByID X U S c s)) = (if e = ErrTableNotFound then 404 else 500, ErrorEnvelope)))
   \<and> ((\<forall>v. validateAssign U (fst (parseAssign U (Get c ''Content-Type'') (raw_body c))) = Some v \<longrightarrow>
      response (fst (AssignTable X U S c s)) = (400, ValidationJSON v))
   \<and> (\<forall>t. validateAssign U (fst (parseAssign U (Get c ''Content-Type'') (raw_body c))) = None
      \<and> fst (svcAssignTable S (fst (parseAssign U (Get c ''Content-Type'') (raw_body c))) s) = Inr t \<longrightarrow>
      response (fst (AssignTable X U S c s)) = (200, TableJSON t))
   \<and> (\<forall>e. validateAssign U (fst (parseAssign U (Get c ''Content-Type'') (raw_body c))) = None
      \<and> fst (svcAssignTable S (fst (parseAssign U (Get c ''Content-Type'') (raw_body c))) s) = Inl e \<longrightarrow>
      shape (fst (AssignTable X U S c s)) = (if e = ErrTableNotFound \<or> e = ErrTableAlreadyAssigned then 400 else 500, ErrorEnvelope)))
   \<and> (shape (fst (FindCustomerTable c s)) = (200, Resource))
   \<and> (authFails jwt_Parse cfg c \<longrightarrow>
      response (fst (AuthMiddleware jwt_Parse cfg nxt c s))
        = (401, FiberMap [(''message'', ''Unauthorized'')]))"
  by (intro conjI envelopes_AddTable envelopes_Edit envelopes_Delete envelopes_FindAllTables
      envelopes_FindTableByID envelopes_AssignTable envelopes_FindCustomerTable
      envelopes_AuthMiddleware)

text \<open>The example requests: a creation of \<open>T1\<close> that the service accepts, refuses as a
  duplicate, or fails on; a creation without a body; a deletion without an id; a list
  and a lookup; a forged token.\<close>

theorem response_envelopes_witness:
  "shape (fst (AddTable exampleExceptions (exampleUtils False) (exampleService None)
        (exampleRequest POST [''manage'', ''tables''] None ''T1'') 0))
     = (200, MessageEnvelope)
   \<and> shape (fst (AddTable exampleExceptions (exampleUtils False)
        (exampleService (Some ErrDuplicatedTableName))
        (exampleRequest POST [''manage'', ''tables''] None ''T1'') 0))
     = (400, ErrorEnvelope)
   \<and> shape (fst (AddTable exampleExceptions (exampleUtils False)
        (exampleService (Some (OtherErr ''connection refused'')))
        (exampleRequest POST [''manage'', ''tables''] None ''T1'') 0))
     = (500, ErrorEnvelope)
   \<and> response (fst (AddTable exampleExceptions (exampleUtils False) (exampleService None)
        (exampleRequest POST [''manage'', ''tables''] None []) 0))
     = (400, ValidationJSON ''invalid request'')
   \<and> shape (fst (Delete exampleExceptions (exampleUtils False) (exampleService None)
        (exampleRequest DELETE [''manage'', ''tables''] None []) 0))
     = (400, ErrorEnvelope)
   \<and> response (fst (FindAllTables exampleExceptions (exampleService None)
        (exampleRequest GET [''manage'', ''tables''] None []) 0))
     = (200, TablesJSON [])
   \<and> response (fst (FindTableByID exampleExceptions (exampleUtils False) (exampleService None)
        ((exampleRequest GET [''manage'', ''tables'', ''III''] None [])\<lparr>params := [''id'' \<mapsto> ''III'']\<rparr>)
        0))
     = (200, TableJSON (Some (exampleTable ''T1'')))
   \<and> shape (fst (FindTableByID exampleExceptions (exampleUtils False)
        (exampleService (Some ErrTableNotFound))
        ((exampleRequest GET [''manage'', ''tables'', ''III''] None [])\<lparr>params := [''id'' \<mapsto> ''III'']\<rparr>)
        0))
     = (404, ErrorEnvelope)
   \<and> authFails exampleJwt exampleCfg
        (exampleRequest POST [''manage'', ''tables''] (Some ''Bearer forged.employee'') ''T1'')
   \<and> response (fst (AuthMiddleware exampleJwt exampleCfg exampleNext
        (exampleRequest POST [''manage'', ''tables''] (Some ''Bearer forged.employee'') ''T1'') 0))
     = (401, FiberMap [(''message'', ''Unauthorized'')])"
proof -
  let ?U = "exampleUtils False"
  let ?a = "exampleRequest POST [''manage'', ''tables''] None ''T1'' :: (Table, string, Identity) Ctx"
  let ?n = "exampleRequest POST [''manage'', ''tables''] None [] :: (Table, string, Identity) Ctx"
  let ?d = "exampleRequest DELETE [''manage'', ''tables''] None [] :: (Table, string, Identity) Ctx"
  let ?l = "exampleRequest GET [''manage'', ''tables''] None [] :: (Table, string, Identity) Ctx"
  let ?f = "(exampleRequest GET [''manage'', ''tables'', ''III''] None [])\<lparr>params := [''id'' \<mapsto> ''III'']\<rparr>
      :: (Table, string, Identity) Ctx"
  let ?x = "exampleRequest POST [''manage'', ''tables''] (Some ''Bearer forged.employee'') ''T1''
      :: (Table, string, Identity) Ctx"
  note t = response_envelopes
    [where X = exampleExceptions and U = ?U and s = "0::nat" and jwt_Parse = exampleJwt
       and cfg = exampleCfg and nxt = exampleNext]
  have va: "validateAdd ?U (fst (parseAdd ?U (Get ?a ''Content-Type'') (raw_body ?a))) = None"
    and vn: "validateAdd ?U (fst (parseAdd ?U (Get ?n ''Content-Type'') (raw_body ?n)))
      = Some ''invalid request''"
    and ud: "ValidateUUID ?U (Params ?d ''id'') = None"
    and uf: "ValidateUUID ?U (Params ?f ''id'') = Some 3"
    by (simp_all add: exampleUtils_def exampleRequest_def Params_def)
  have sv: "fst (svcAddTable (exampleService r) q (0::nat)) = r"
    "fst (svcFindAllTables (exampleService None) (0::nat)) = Inr []"
    "fst (svcFindTableByID (exampleService None) i (0::nat)) = Inr (Some (exampleTable ''T1''))"
    "fst (svcFindTableByID (exampleService (Some ErrTableNotFound)) i (0::nat)) = Inl ErrTableNotFound"
    for r q i
    by (simp_all add: exampleService_def)
  have a1: "shape (fst (AddTable exampleExceptions ?U (exampleService None) ?a 0))
      = (200, MessageEnvelope)"
    using t [where S = "exampleService None" and c = ?a, THEN conjunct1, THEN conjunct2,
        THEN conjunct1, THEN mp] va sv(1) by simp
  have a2: "shape (fst (AddTable exampleExceptions ?U (exampleService (Some ErrDuplicatedTableName)) ?a 0))
      = (400, ErrorEnvelope)"
    using t [where S = "exampleService (Some ErrDuplicatedTableName)" and c = ?a, THEN conjunct1,
        THEN conjunct2, THEN conjunct2, THEN spec, of ErrDuplicatedTableName] va sv(1) by simp
  have a3: "shape (fst (AddTable exampleExceptions ?U
        (exampleService (Some (OtherErr ''connection refused''))) ?a 0))
      = (500, ErrorEnvelope)"
    using t [where S = "exampleService (Some (OtherErr ''connection refused''))" and c = ?a,
        THEN conjunct1, THEN conjunct2, THEN conjunct2, THEN spec,
        of "OtherErr ''connection refused''"] va sv(1) by simp
  have a4: "response (fst (AddTable exampleExceptions ?U (exampleService None) ?n 0))
      = (400, ValidationJSON ''invalid request'')"
    using t [where S = "exampleService None" and c = ?n, THEN conjunct1, THEN conjunct1,
        THEN spec, of "''invalid request''"] vn by simp
  have d1: "shape (fst (Delete exampleExceptions ?U (exampleService None) ?d 0))
      = (400, ErrorEnvelope)"
    using t [where S = "exampleService None" and c = ?d, THEN conjunct2, THEN conjunct2,
        THEN conjunct1, THEN conjunct1] ud by simp
  have l1: "response (fst (FindAllTables exampleExceptions (exampleService None) ?l 0))
      = (200, TablesJSON [])"
    using t [where S = "exampleService None" and c = ?l, THEN conjunct2, THEN conjunct2,
        THEN conjunct2, THEN conjunct1, THEN conjunct1, THEN spec, of "[]"] sv(2) by simp
  have f1: "response (fst (FindTableByID exampleExceptions ?U (exampleService None) ?f 0))
      = (200, TableJSON (Some (exampleTable ''T1'')))"
    using t [where S = "exampleService None" and c = ?f, THEN conjunct2, THEN conjunct2,
        THEN conjunct2, THEN conjunct2, THEN conjunct1, THEN conjunct2, THEN conjunct1,
        THEN spec, THEN spec, of 3 "Some (exampleTable ''T1'')"] uf sv(3) by simp
  have f2: "shape (fst (FindTableByID exampleExceptions ?U (exampleService (Some ErrTableNotFound)) ?f 0))
      = (404, ErrorEnvelope)"
    using t [where S = "exampleService (Some ErrTableNotFound)" and c = ?f, THEN conjunct2,
        THEN conjunct2, THEN conjunct2, THEN conjunct2, THEN conjunct1, THEN conjunct2,
        THEN conjunct2, THEN spec, THEN spec, of 3 ErrTableNotFound] uf sv(4) by simp
  have x1: "response (fst (AuthMiddleware exampleJwt exampleCfg exampleNext ?x 0))
      = (401, FiberMap [(''message'', ''Unauthorized'')])"
    using t [where S = "exampleService None" and c = ?x, THEN conjunct2, THEN conjunct2,
        THEN conjunct2, THEN conjunct2, THEN conjunct2, THEN conjunct2, THEN conjunct2]
      example_authFails(3) by simp
  show ?thesis
    using a1 a2 a3 a4 d1 l1 f1 f2 x1 example_authFails(3) by simp
qed

end
